theory Spec2Isabelle
  imports Complex_Main "HOL-Library.AList"
begin

section \<open>Orbit animation planner (rendering/blender_renderer.py)\<close>

text \<open>
  Rotations are Euler triples of radians. Python floats are idealised as real numbers;
  \<open>radians\<close> is \<open>math.radians\<close>.
\<close>

type_synonym euler = "real \<times> real \<times> real"

definition radians :: "real \<Rightarrow> real" where
  "radians d = d * pi / 180"

datatype interpolation_mode = BEZIER | LINEAR

record keyframe =
  frame :: int
  rotation_euler :: euler
  interpolation :: interpolation_mode

text \<open>
  The part of the Blender scene that \<open>animate_camera_orbit\<close> touches. \<open>orbit_empty\<close> is
  \<open>bpy.data.objects.get('OrbitEmpty')\<close>: \<open>None\<close> when the object is absent, otherwise the
  record of the \<open>keyframe_insert\<close> calls made on it so far, in the order of the calls.
  (Blender keeps one keyframe per frame, so two calls on the same frame leave one point on
  the curve; the number of points is the number of distinct frames.)
\<close>

record scene =
  frame_start :: int
  frame_end :: int
  render_fps :: int
  orbit_empty :: "keyframe list option"

text \<open>The exceptions the code can meet, each with the text \<open>str(e)\<close> gives.\<close>

datatype error =
    ValueError string
  | OSError string
  | RuntimeError string
  | TimeoutExpired string
  | FfmpegError string

fun str_of_error :: "error \<Rightarrow> string" where
  "str_of_error (ValueError m) = m"
| "str_of_error (OSError m) = m"
| "str_of_error (RuntimeError m) = m"
| "str_of_error (TimeoutExpired m) = m"
| "str_of_error (FfmpegError m) = m"

text \<open>\<open>empty.keyframe_insert(data_path="rotation_euler", frame=f)\<close> with the rotation set just before.\<close>

definition keyframe_insert :: "int \<Rightarrow> euler \<Rightarrow> keyframe list \<Rightarrow> keyframe list" where
  "keyframe_insert f rot kfs = kfs @ [\<lparr>frame = f, rotation_euler = rot, interpolation = BEZIER\<rparr>]"

definition set_linear :: "keyframe \<Rightarrow> keyframe" where
  "set_linear k = k\<lparr>interpolation := LINEAR\<rparr>"

definition animate_camera_orbit :: "int \<Rightarrow> int \<Rightarrow> scene \<Rightarrow> error + scene" where
  "animate_camera_orbit total_frames fps scene0 =
     (let scene = scene0\<lparr>frame_start := 1, frame_end := total_frames, render_fps := fps\<rparr> in
      case orbit_empty scene of
        None \<Rightarrow> Inl (ValueError ''OrbitEmpty not found. Setup camera first.'')
      | Some empty0 \<Rightarrow>
         (let num_segments = 6;
              frames_per_segment = total_frames div num_segments;
              rotation_amount = radians 60;
              \<comment> \<open>segment 0: starting position\<close>
              frame_number = 1;
              x_rotation = 0;
              y_rotation = 0;
              z_rotation = 0;
              empty = keyframe_insert frame_number (x_rotation, y_rotation, z_rotation) empty0;
              \<comment> \<open>segment 1: Z\<close>
              frame_number = frames_per_segment * 1;
              z_rotation = z_rotation + rotation_amount;
              empty = keyframe_insert frame_number (x_rotation, y_rotation, z_rotation) empty;
              \<comment> \<open>segment 2: X and Z\<close>
              frame_number = frames_per_segment * 2;
              x_rotation = x_rotation + rotation_amount;
              z_rotation = z_rotation + rotation_amount;
              empty = keyframe_insert frame_number (x_rotation, y_rotation, z_rotation) empty;
              \<comment> \<open>segment 3: X\<close>
              frame_number = frames_per_segment * 3;
              x_rotation = x_rotation + rotation_amount;
              empty = keyframe_insert frame_number (x_rotation, y_rotation, z_rotation) empty;
              \<comment> \<open>segment 4: X and Y\<close>
              frame_number = frames_per_segment * 4;
              x_rotation = x_rotation + rotation_amount;
              y_rotation = y_rotation + rotation_amount;
              empty = keyframe_insert frame_number (x_rotation, y_rotation, z_rotation) empty;
              \<comment> \<open>segment 5: Y\<close>
              frame_number = frames_per_segment * 5;
              y_rotation = y_rotation + rotation_amount;
              empty = keyframe_insert frame_number (x_rotation, y_rotation, z_rotation) empty;
              \<comment> \<open>segment 6: Y and Z\<close>
              frame_number = frames_per_segment * 6;
              y_rotation = y_rotation + rotation_amount;
              z_rotation = z_rotation + rotation_amount;
              empty = keyframe_insert frame_number (x_rotation, y_rotation, z_rotation) empty;
              \<comment> \<open>final position: complete the loop\<close>
              frame_number = total_frames;
              x_rotation = radians 360;
              y_rotation = radians 360;
              z_rotation = radians 360;
              empty = keyframe_insert frame_number (x_rotation, y_rotation, z_rotation) empty
          in Inr (scene\<lparr>orbit_empty := Some (map set_linear empty)\<rparr>)))"

text \<open>A keyframe as the planner leaves it: linear interpolation, rotation given in degrees.\<close>

definition kf :: "int \<Rightarrow> real \<Rightarrow> real \<Rightarrow> real \<Rightarrow> keyframe" where
  "kf f x y z = \<lparr>frame = f, rotation_euler = (radians x, radians y, radians z), interpolation = LINEAR\<rparr>"

text \<open>The keyframes a call adds to the empty: those after the \<open>n\<close> it held before.\<close>

definition emitted :: "scene \<Rightarrow> error + scene \<Rightarrow> keyframe list option" where
  "emitted s r =
     (case r of
        Inl e \<Rightarrow> None
      | Inr s' \<Rightarrow>
         (case (orbit_empty s, orbit_empty s') of
            (Some old, Some new) \<Rightarrow> Some (drop (length old) new)
          | _ \<Rightarrow> None))"

subsection \<open>Configuration (config.py) and the render request\<close>

definition VIDEO_DURATION :: int where "VIDEO_DURATION = 5"
definition FPS :: int where "FPS = 10"
definition TOTAL_FRAMES :: int where "TOTAL_FRAMES = VIDEO_DURATION * FPS"
definition VIDEO_WIDTH :: int where "VIDEO_WIDTH = 640"
definition VIDEO_HEIGHT :: int where "VIDEO_HEIGHT = 740"
definition RENDER_SAMPLES :: int where "RENDER_SAMPLES = 128"
definition USE_GPU :: bool where "USE_GPU = True"

type_synonym color = "real \<times> real \<times> real"

text \<open>
  \<open>_generate_blender_script\<close> writes a Python script whose only content is one call of
  \<open>BlenderRenderer(...).render_video(...)\<close>; the script is represented by the arguments of
  that call.
\<close>

record render_request =
  req_render_samples :: int
  req_use_gpu :: bool
  req_stl_path :: string
  req_output_dir :: string
  req_object_color :: color
  req_background_color :: color
  req_total_frames :: int
  req_fps :: int
  req_width :: int
  req_height :: int

definition generate_blender_script :: "string \<Rightarrow> string \<Rightarrow> color \<Rightarrow> color \<Rightarrow> render_request" where
  "generate_blender_script stl_path output_dir object_color background_color =
     \<lparr>req_render_samples = RENDER_SAMPLES,
      req_use_gpu = USE_GPU,
      req_stl_path = stl_path,
      req_output_dir = output_dir,
      req_object_color = object_color,
      req_background_color = background_color,
      req_total_frames = TOTAL_FRAMES,
      req_fps = FPS,
      req_width = VIDEO_WIDTH,
      req_height = VIDEO_HEIGHT\<rparr>"

text \<open>
  \<open>render_video\<close>, as far as the orbit is concerned: \<open>clear_scene\<close> deletes every object,
  \<open>setup_camera\<close> adds a fresh empty named OrbitEmpty, then the orbit is animated with the
  request's frame count and rate. Import, materials, lights and the rendering itself are
  Blender operations outside this model.
\<close>

definition clear_scene :: "scene \<Rightarrow> scene" where
  "clear_scene s = s\<lparr>orbit_empty := None\<rparr>"

definition setup_camera :: "scene \<Rightarrow> scene" where
  "setup_camera s = s\<lparr>orbit_empty := Some []\<rparr>"

definition render_video :: "render_request \<Rightarrow> scene \<Rightarrow> error + scene" where
  "render_video req s =
     animate_camera_orbit (req_total_frames req) (req_fps req) (setup_camera (clear_scene s))"

section \<open>Paths and files\<close>

text \<open>
  A path is the string \<open>str(Path)\<close> gives (POSIX, no trailing slash). \<open>path_name\<close> and
  \<open>path_stem\<close> are pathlib's \<open>name\<close> and \<open>stem\<close>, \<open>path_join\<close> is the \<open>/\<close> operator with a
  relative right operand.
\<close>

definition path_name :: "string \<Rightarrow> string" where
  "path_name p = (if p = ''.'' then [] else rev (takeWhile (\<lambda>c. c \<noteq> CHR ''/'') (rev p)))"

definition rfind_dot :: "string \<Rightarrow> nat option" where
  "rfind_dot n =
     (if CHR ''.'' \<in> set n
      then Some (length n - 1 - length (takeWhile (\<lambda>c. c \<noteq> CHR ''.'') (rev n)))
      else None)"

definition path_stem :: "string \<Rightarrow> string" where
  "path_stem p =
     (let n = path_name p in
      case rfind_dot n of
        None \<Rightarrow> n
      | Some i \<Rightarrow> if 0 < i \<and> i < length n - 1 then take i n else n)"

definition path_join :: "string \<Rightarrow> string \<Rightarrow> string" where
  "path_join d n = d @ ''/'' @ n"

text \<open>
  The file system holds regular files only: an association list from path to content,
  a file's size being the length of its content. Directories, permissions and devices
  are not modelled, so the only operating-system error is a missing file.
\<close>

type_synonym filesystem = "(string \<times> string) list"

text \<open>
  \<open>repr\<close> of a string that holds neither a quote nor a backslash: the string between
  single quotes, as it stands in the text of an \<open>OSError\<close>.
\<close>

definition py_repr :: "string \<Rightarrow> string" where
  "py_repr s = [CHR 0x27] @ s @ [CHR 0x27]"

definition path_exists :: "filesystem \<Rightarrow> string \<Rightarrow> bool" where
  "path_exists fs p = (map_of fs p \<noteq> None)"

definition stat_st_size :: "filesystem \<Rightarrow> string \<Rightarrow> error + int" where
  "stat_st_size fs p =
     (case map_of fs p of
        None \<Rightarrow> Inl (OSError (''[Errno 2] No such file or directory: '' @ py_repr p))
      | Some c \<Rightarrow> Inr (int (length c)))"

definition write_file :: "string \<Rightarrow> string \<Rightarrow> filesystem \<Rightarrow> filesystem" where
  "write_file p c fs = AList.update p c fs"

definition unlink :: "string \<Rightarrow> filesystem \<Rightarrow> error + filesystem" where
  "unlink p fs =
     (case map_of fs p of
        None \<Rightarrow> Inl (OSError (''[Errno 2] No such file or directory: '' @ py_repr p))
      | Some c \<Rightarrow> Inr (AList.delete p fs))"

text \<open>\<open>shutil.copy(src, dst)\<close> for a destination that is not a directory.\<close>

definition shutil_copy :: "string \<Rightarrow> string \<Rightarrow> filesystem \<Rightarrow> error + filesystem" where
  "shutil_copy src dst fs =
     (case map_of fs src of
        None \<Rightarrow> Inl (OSError (''[Errno 2] No such file or directory: '' @ py_repr src))
      | Some c \<Rightarrow>
         if src = dst
         then Inl (OSError (''PosixPath('' @ py_repr src @ '') and PosixPath('' @ py_repr dst
                              @ '') are the same file''))
         else Inr (write_file dst c fs))"

definition ends_with :: "string \<Rightarrow> string \<Rightarrow> bool" where
  "ends_with ext n = (length ext \<le> length n \<and> drop (length n - length ext) n = ext)"

text \<open>\<open>dir.glob('*' + ext)\<close>: the files directly inside \<open>dir\<close> whose name ends with \<open>ext\<close>.\<close>

definition glob_ext :: "filesystem \<Rightarrow> string \<Rightarrow> string \<Rightarrow> string list" where
  "glob_ext fs dir ext =
     filter (\<lambda>p. p = path_join dir (path_name p) \<and> ends_with ext (path_name p)) (map fst fs)"

section \<open>Job store (database/db_manager.py)\<close>

text \<open>
  The two tables as lists of rows in rowid order. Timestamps are seconds (natural numbers);
  \<open>CURRENT_TIMESTAMP\<close> is an argument \<open>now\<close> of each operation that uses it. Statuses are the
  strings the code writes.
\<close>

record stl_file =
  f_id :: int
  f_filename :: string
  f_filepath :: string
  f_added_date :: nat
  f_file_size :: "int option"
  f_status :: string

record render_job =
  j_id :: int
  j_stl_file_id :: "int option"
  j_output_path :: "string option"
  j_object_color :: color
  j_background_color :: color
  j_render_date :: "nat option"
  j_render_duration :: "real option"
  j_status :: string
  j_error_message :: "string option"

text \<open>
  Both keys are \<open>INTEGER PRIMARY KEY AUTOINCREMENT\<close>: a new rowid is one more than the
  largest rowid the table ever held, which SQLite keeps in \<open>sqlite_sequence\<close> (here
  \<open>stl_files_seq\<close>, \<open>render_jobs_seq\<close>).
\<close>

record database =
  stl_files :: "stl_file list"
  render_jobs :: "render_job list"
  stl_files_seq :: int
  render_jobs_seq :: int

definition init_database :: database where
  "init_database = \<lparr>stl_files = [], render_jobs = [], stl_files_seq = 0, render_jobs_seq = 0\<rparr>"

definition new_rowid :: "int \<Rightarrow> int list \<Rightarrow> int" where
  "new_rowid seq ids = fold max ids seq + 1"

text \<open>
  \<open>INSERT OR IGNORE INTO stl_files (filename, filepath, file_size)\<close>: the row is dropped when
  the filename is already there (the UNIQUE constraint). The rowid is drawn before the
  constraint is checked, so an ignored insert still uses one up.
\<close>

definition insert_or_ignore_stl_file :: "nat \<Rightarrow> string \<Rightarrow> string \<Rightarrow> int \<Rightarrow> database \<Rightarrow> database" where
  "insert_or_ignore_stl_file now name path file_size db =
     (let rowid = new_rowid (stl_files_seq db) (map f_id (stl_files db)) in
      case find (\<lambda>f. f_filename f = name) (stl_files db) of
        Some f \<Rightarrow> db\<lparr>stl_files_seq := rowid\<rparr>
      | None \<Rightarrow>
         db\<lparr>stl_files := stl_files db @
               [\<lparr>f_id = rowid, f_filename = name, f_filepath = path, f_added_date = now,
                 f_file_size = Some file_size, f_status = ''pending''\<rparr>],
            stl_files_seq := rowid\<rparr>)"

definition add_stl_file :: "nat \<Rightarrow> filesystem \<Rightarrow> string \<Rightarrow> database \<Rightarrow> error + (int option \<times> database)" where
  "add_stl_file now fs path db =
     (case stat_st_size fs path of
        Inl e \<Rightarrow> Inl e
      | Inr file_size \<Rightarrow>
         (let db1 = insert_or_ignore_stl_file now (path_name path) path file_size db;
              result = find (\<lambda>f. f_filename f = path_name path) (stl_files db1)
          in Inr (map_option f_id result, db1)))"

text \<open>SQL \<open>LIMIT n\<close>: a negative \<open>n\<close> means no limit.\<close>

definition sql_limit :: "int \<Rightarrow> 'a list \<Rightarrow> 'a list" where
  "sql_limit n rows = (if n < 0 then rows else take (nat n) rows)"

text \<open>
  \<open>ORDER BY added_date ASC\<close> is a stable sort on the rows in rowid order. The limit clause
  is added under Python's \<open>if limit:\<close>, which is false for \<open>None\<close> and for \<open>0\<close>.
\<close>

definition get_pending_files :: "int option \<Rightarrow> database \<Rightarrow> stl_file list" where
  "get_pending_files limit db =
     (let rows = sort_key f_added_date (filter (\<lambda>f. f_status f = ''pending'') (stl_files db)) in
      case limit of
        None \<Rightarrow> rows
      | Some n \<Rightarrow> if n \<noteq> 0 then sql_limit n rows else rows)"

definition create_render_job :: "int option \<Rightarrow> color \<Rightarrow> color \<Rightarrow> database \<Rightarrow> int \<times> database" where
  "create_render_job stl_file_id object_color background_color db =
     (let rowid = new_rowid (render_jobs_seq db) (map j_id (render_jobs db)) in
      (rowid,
       db\<lparr>render_jobs := render_jobs db @
             [\<lparr>j_id = rowid, j_stl_file_id = stl_file_id, j_output_path = None,
               j_object_color = object_color, j_background_color = background_color,
               j_render_date = None, j_render_duration = None, j_status = ''pending'',
               j_error_message = None\<rparr>],
          render_jobs_seq := rowid\<rparr>))"

text \<open>
  \<open>update_render_job\<close>: an UPDATE of the rows with the given id (\<open>set_outcome\<close> is its
  SET clause), then, for status
  \<open>completed\<close>, an UPDATE of the files whose id is the job's \<open>stl_file_id\<close> (the scalar
  subquery: the first matching job's value, NULL when there is none, and NULL equals
  nothing). Neither statement checks how many rows it changed, and the function has no
  \<open>raise\<close>; the result type keeps the place of an error so that callers can be stated
  uniformly.
\<close>

definition set_outcome ::
  "nat \<Rightarrow> string \<Rightarrow> string option \<Rightarrow> real option \<Rightarrow> string option \<Rightarrow> render_job \<Rightarrow> render_job" where
  "set_outcome now status output_path render_duration error_message j =
     j\<lparr>j_status := status, j_output_path := output_path, j_render_date := Some now,
       j_render_duration := render_duration, j_error_message := error_message\<rparr>"

definition update_render_job ::
  "nat \<Rightarrow> int \<Rightarrow> string \<Rightarrow> string option \<Rightarrow> real option \<Rightarrow> string option \<Rightarrow> database \<Rightarrow> error + database" where
  "update_render_job now job_id status output_path render_duration error_message db =
     (let db1 = db\<lparr>render_jobs :=
                   map (\<lambda>j. if j_id j = job_id
                             then set_outcome now status output_path render_duration error_message j
                             else j) (render_jobs db)\<rparr>
      in if status = ''completed''
         then
           (let owner = (case find (\<lambda>j. j_id j = job_id) (render_jobs db1) of
                           None \<Rightarrow> None
                         | Some j \<Rightarrow> j_stl_file_id j)
            in Inr (db1\<lparr>stl_files :=
                          map (\<lambda>f. if Some (f_id f) = owner then f\<lparr>f_status := ''completed''\<rparr> else f)
                            (stl_files db1)\<rparr>))
         else Inr db1)"

section \<open>Palette generator (rendering/color_manager.py)\<close>

text \<open>
  Colour channels are Python floats, idealised as real numbers. \<open>rgb_to_hsv\<close> and
  \<open>hsv_to_rgb\<close> are the functions of Python's \<open>colorsys\<close> module, \<open>py_mod1\<close> is \<open>x % 1.0\<close> and
  \<open>py_int\<close> is \<open>int(x)\<close>, which truncates toward zero.
\<close>

definition py_mod1 :: "real \<Rightarrow> real" where
  "py_mod1 x = x - of_int \<lfloor>x\<rfloor>"

definition py_int :: "real \<Rightarrow> int" where
  "py_int x = (if 0 \<le> x then \<lfloor>x\<rfloor> else \<lceil>x\<rceil>)"

definition rgb_to_hsv :: "color \<Rightarrow> color" where
  "rgb_to_hsv c =
     (case c of (r, g, b) \<Rightarrow>
        let maxc = max r (max g b);
            minc = min r (min g b);
            rangec = maxc - minc;
            v = maxc
        in if minc = maxc then (0, 0, v)
           else
             let s = rangec / maxc;
                 rc = (maxc - r) / rangec;
                 gc = (maxc - g) / rangec;
                 bc = (maxc - b) / rangec;
                 h = (if r = maxc then bc - gc
                      else if g = maxc then 2 + rc - bc
                      else 4 + gc - rc)
             in (py_mod1 (h / 6), s, v))"

definition hsv_to_rgb :: "color \<Rightarrow> color" where
  "hsv_to_rgb c =
     (case c of (h, s, v) \<Rightarrow>
        if s = 0 then (v, v, v)
        else
          let i = py_int (h * 6);
              f = h * 6 - of_int i;
              p = v * (1 - s);
              q = v * (1 - s * f);
              t = v * (1 - s * (1 - f));
              i = i mod 6
          in if i = 0 then (v, t, p)
             else if i = 1 then (q, v, p)
             else if i = 2 then (p, v, t)
             else if i = 3 then (p, q, v)
             else if i = 4 then (t, p, v)
             else (v, p, q))"

text \<open>
  The random draws of one call: the index \<open>random.choice\<close> picks and the number in [0, 1)
  behind \<open>random.uniform(a, b) = a + (b - a) * random()\<close>.
\<close>

record rnd =
  rnd_choice :: nat
  rnd_random :: real

definition generate_contrasting_color :: "rnd \<Rightarrow> color \<Rightarrow> string \<Rightarrow> color" where
  "generate_contrasting_color rn base_color contrast_level =
     (case rgb_to_hsv base_color of (h, s, v) \<Rightarrow>
        if contrast_level = ''high'' then
          (let new_h = py_mod1 (h + 0.5);
               new_v = (if v < 0.5 then 0.95 else 0.15);
               new_s = max 0.1 (s * 0.5)
           in hsv_to_rgb (new_h, new_s, new_v))
        else if contrast_level = ''medium'' then
          (let new_h = py_mod1 (h + [0.4, 0.6] ! (rnd_choice rn mod 2));
               new_v = (if v < 0.5 then 0.85 else 0.25);
               new_s = max 0.1 (s * 0.6)
           in hsv_to_rgb (new_h, new_s, new_v))
        else
          (let new_h = py_mod1 (h + (- 0.1 + (0.1 - (- 0.1)) * rnd_random rn));
               new_v = (if v < 0.5 then 0.75 else 0.35);
               new_s = max 0.1 (s * 0.7)
           in hsv_to_rgb (new_h, new_s, new_v)))"

text \<open>
  \<open>get_color_palette\<close>, with the object colour that \<open>generate_random_soothing_color\<close> drew as
  an argument; the two hex strings, which are only logged, are left out.
\<close>

definition get_color_palette :: "rnd \<Rightarrow> color \<Rightarrow> color \<times> color" where
  "get_color_palette rn object_color =
     (object_color, generate_contrasting_color rn object_color ''high'')"

section \<open>Video compositor (rendering/video_compositor.py)\<close>

text \<open>
  FFmpeg is an external program: a run is described by an \<open>ffmpeg_job\<close> and its effect is an
  argument \<open>ffmpeg\<close> of every function that starts one, giving either an error or the new
  file system.
\<close>

datatype ffmpeg_job =
    FramesToVideo string int int int string int string
  | MuxAudio string string string

type_synonym ffmpeg_run = "ffmpeg_job \<Rightarrow> filesystem \<Rightarrow> error + filesystem"

definition create_video_from_frames ::
  "ffmpeg_run \<Rightarrow> int \<Rightarrow> string \<Rightarrow> string \<Rightarrow> int \<Rightarrow> int \<Rightarrow> int \<Rightarrow> string \<Rightarrow> filesystem
     \<Rightarrow> error + (string \<times> filesystem)" where
  "create_video_from_frames ffmpeg fps frames_dir output_path width height crf preset fs =
     (let input_pattern = path_join frames_dir ''frame_%04d.png'' in
      case ffmpeg (FramesToVideo input_pattern fps width height output_path crf preset) fs of
        Inl e \<Rightarrow> Inl e
      | Inr fs' \<Rightarrow> Inr (output_path, fs'))"

text \<open>Both \<open>except\<close> clauses of \<open>add_random_audio\<close> log and re-raise, so an error passes through.\<close>

definition add_random_audio ::
  "ffmpeg_run \<Rightarrow> nat \<Rightarrow> string \<Rightarrow> string \<Rightarrow> string \<Rightarrow> filesystem \<Rightarrow> error + (string \<times> filesystem)" where
  "add_random_audio ffmpeg choice video_path output_path audio_dir fs =
     (let audio_files = glob_ext fs audio_dir ''.mp3'' @ glob_ext fs audio_dir ''.wav''
                          @ glob_ext fs audio_dir ''.m4a''
      in if audio_files = [] then
           (case shutil_copy video_path output_path fs of
              Inl e \<Rightarrow> Inl e
            | Inr fs' \<Rightarrow> Inr (output_path, fs'))
         else
           (let selected_audio = audio_files ! (choice mod length audio_files) in
            case ffmpeg (MuxAudio video_path selected_audio output_path) fs of
              Inl e \<Rightarrow> Inl e
            | Inr fs' \<Rightarrow> Inr (output_path, fs')))"

section \<open>Pipeline orchestrator (main.py)\<close>

text \<open>
  What one call of \<open>render_single_file\<close> works on: the job store and the file system.
\<close>

record pstate =
  st_db :: database
  st_fs :: filesystem

text \<open>
  What the outside gives to one call of \<open>render_single_file\<close>: the directory of the
  program (\<open>BASE_DIR\<close>), the random draws, the clock readings of the three statements that
  use \<open>CURRENT_TIMESTAMP\<close>, the elapsed time, the text of the generated script, and the
  behaviour of the two external programs. \<open>w_blender\<close> is \<open>subprocess.run\<close> on Blender with
  the script: an error (the timeout, a missing executable) or the return code, the standard
  error text and the new file system. A failed external run is taken to leave the file system
  as it was.
\<close>

record world =
  w_base_dir :: string
  w_rnd :: rnd
  w_object_color :: color
  w_time_register :: nat
  w_time_completed :: nat
  w_time_failed :: nat
  w_elapsed :: real
  w_script_text :: "render_request \<Rightarrow> string"
  w_blender :: "render_request \<Rightarrow> filesystem \<Rightarrow> error + (int \<times> string \<times> filesystem)"
  w_ffmpeg :: ffmpeg_run
  w_audio_choice :: nat

definition DATA_DIR :: "string \<Rightarrow> string" where
  "DATA_DIR base = path_join base ''data''"

definition RENDERS_DIR :: "string \<Rightarrow> string" where
  "RENDERS_DIR base = path_join (DATA_DIR base) ''renders''"

definition OUTPUT_DIR :: "string \<Rightarrow> string" where
  "OUTPUT_DIR base = path_join (DATA_DIR base) ''output_videos''"

definition AUDIO_DIR :: "string \<Rightarrow> string" where
  "AUDIO_DIR base = path_join (DATA_DIR base) ''audio-assets''"

text \<open>
  The \<open>try\<close> block of \<open>render_single_file\<close> from the point where \<open>job_id\<close> is bound. A failure
  gives the exception and the state reached, a success the output path. The two \<open>mkdir\<close>
  calls have no effect on a file system without directories; \<open>temp_video.unlink()\<close> runs
  under \<open>temp_video.exists()\<close> and so cannot fail, \<open>temp_script.unlink()\<close> can.
\<close>

definition render_stages ::
  "world \<Rightarrow> string \<Rightarrow> int \<Rightarrow> color \<Rightarrow> color \<Rightarrow> pstate \<Rightarrow> (error \<times> pstate) + (string \<times> pstate)" where
  "render_stages w stl_path job_id object_rgb background_rgb st =
     (let base = w_base_dir w;
          render_dir = path_join (RENDERS_DIR base) (path_stem stl_path);
          blender_script = generate_blender_script stl_path render_dir object_rgb background_rgb;
          temp_script = path_join base ''temp_render_script.py'';
          fs1 = write_file temp_script (w_script_text w blender_script) (st_fs st)
      in case w_blender w blender_script fs1 of
           Inl e \<Rightarrow> Inl (e, st\<lparr>st_fs := fs1\<rparr>)
         | Inr (returncode, stderr, fs2) \<Rightarrow>
            if returncode \<noteq> 0
            then Inl (RuntimeError (''Blender render failed: '' @ stderr), st\<lparr>st_fs := fs2\<rparr>)
            else
              (let temp_video = path_join (OUTPUT_DIR base) (path_stem stl_path @ ''_temp.mp4'') in
               case create_video_from_frames (w_ffmpeg w) FPS render_dir temp_video
                      VIDEO_WIDTH VIDEO_HEIGHT 18 ''medium'' fs2 of
                 Inl e \<Rightarrow> Inl (e, st\<lparr>st_fs := fs2\<rparr>)
               | Inr (created, fs3) \<Rightarrow>
                  (case add_random_audio (w_ffmpeg w) (w_audio_choice w) temp_video
                          (path_join (OUTPUT_DIR base) (path_stem stl_path @ ''.mp4''))
                          (AUDIO_DIR base) fs3 of
                     Inl e \<Rightarrow> Inl (e, st\<lparr>st_fs := fs3\<rparr>)
                   | Inr (output_video, fs4) \<Rightarrow>
                      (let fs5 = (if path_exists fs4 temp_video
                                  then AList.delete temp_video fs4 else fs4)
                       in case update_render_job (w_time_completed w) job_id ''completed''
                                 (Some output_video) (Some (w_elapsed w)) None (st_db st) of
                            Inl e \<Rightarrow> Inl (e, st\<lparr>st_fs := fs5\<rparr>)
                          | Inr db1 \<Rightarrow>
                             (case unlink temp_script fs5 of
                                Inl e \<Rightarrow> Inl (e, \<lparr>st_db = db1, st_fs = fs5\<rparr>)
                              | Inr fs6 \<Rightarrow> Inr (output_video, \<lparr>st_db = db1, st_fs = fs6\<rparr>))))))"

text \<open>
  The whole \<open>try\<close> block. A failure also tells whether \<open>job_id\<close> was bound when it happened,
  which the handler asks with \<open>'job_id' in locals()\<close>.
\<close>

definition render_single_file_try ::
  "world \<Rightarrow> string \<Rightarrow> pstate \<Rightarrow> (error \<times> int option \<times> pstate) + (string \<times> pstate)" where
  "render_single_file_try w stl_path st =
     (case get_color_palette (w_rnd w) (w_object_color w) of (object_rgb, background_rgb) \<Rightarrow>
        (case add_stl_file (w_time_register w) (st_fs st) stl_path (st_db st) of
           Inl e \<Rightarrow> Inl (e, None, st)
         | Inr (file_id, db1) \<Rightarrow>
            (case create_render_job file_id object_rgb background_rgb db1 of (job_id, db2) \<Rightarrow>
               (case render_stages w stl_path job_id object_rgb background_rgb
                       (st\<lparr>st_db := db2\<rparr>) of
                  Inl (e, st') \<Rightarrow> Inl (e, Some job_id, st')
                | Inr r \<Rightarrow> Inr r))))"

text \<open>
  \<open>render_single_file\<close>: the \<open>try\<close> block and its \<open>except Exception\<close> handler. \<open>Inl\<close> is an
  exception that leaves the function, \<open>Inr (None, _)\<close> the return of \<open>None\<close>. Every error of
  the model is an \<open>Exception\<close>; \<open>KeyboardInterrupt\<close> and \<open>SystemExit\<close>, which the handler
  does not catch, are outside the model.
\<close>

definition render_single_file ::
  "world \<Rightarrow> string \<Rightarrow> pstate \<Rightarrow> error + (string option \<times> pstate)" where
  "render_single_file w stl_path st =
     (case render_single_file_try w stl_path st of
        Inr (output_video, st') \<Rightarrow> Inr (Some output_video, st')
      | Inl (e, job, st') \<Rightarrow>
         (case job of
            None \<Rightarrow> Inr (None, st')
          | Some job_id \<Rightarrow>
             (case update_render_job (w_time_failed w) job_id ''failed'' None None
                     (Some (str_of_error e)) (st_db st') of
                Inl e' \<Rightarrow> Inl e'
              | Inr db' \<Rightarrow> Inr (None, st'\<lparr>st_db := db'\<rparr>))))"

text \<open>
  The loop of \<open>process_queue\<close> over the pending files, the \<open>k\<close>-th call of
  \<open>render_single_file\<close> meeting the world \<open>ws k\<close>. Besides \<open>success_count\<close> the model returns
  the list of the calls' results, in order, which the source only logs.
\<close>

fun process_files ::
  "(nat \<Rightarrow> world) \<Rightarrow> nat \<Rightarrow> stl_file list \<Rightarrow> nat \<Rightarrow> pstate
     \<Rightarrow> error + (nat \<times> string option list \<times> pstate)" where
  "process_files ws k [] success_count st = Inr (success_count, [], st)"
| "process_files ws k (file_data # rest) success_count st =
     (case render_single_file (ws k) (f_filepath file_data) st of
        Inl e \<Rightarrow> Inl e
      | Inr (result, st') \<Rightarrow>
         (case process_files ws (Suc k) rest
                 (if result \<noteq> None then success_count + 1 else success_count) st' of
            Inl e \<Rightarrow> Inl e
          | Inr (n, results, st'') \<Rightarrow> Inr (n, result # results, st'')))"

text \<open>\<open>process_queue\<close>; the statistics it reads at the end are only logged.\<close>

definition process_queue ::
  "(nat \<Rightarrow> world) \<Rightarrow> int option \<Rightarrow> pstate \<Rightarrow> error + (nat \<times> string option list \<times> pstate)" where
  "process_queue ws limit st =
     (let pending_files = get_pending_files limit (st_db st) in
      if pending_files = [] then Inr (0, [], st)
      else process_files ws 0 pending_files 0 st)"

section \<open>Example values\<close>

text \<open>A scene as \<open>setup_camera\<close> leaves it: the orbit empty exists and has no keyframe yet.\<close>

definition scene0 :: scene where
  "scene0 = \<lparr>frame_start = 0, frame_end = 0, render_fps = 0, orbit_empty = Some []\<rparr>"

text \<open>The frame numbers of the keyframes a call of the planner adds, in order.\<close>

definition orbit_frames :: "int \<Rightarrow> int \<Rightarrow> scene \<Rightarrow> int list" where
  "orbit_frames total_frames fps s =
     (case emitted s (animate_camera_orbit total_frames fps s) of
        None \<Rightarrow> []
      | Some ks \<Rightarrow> map frame ks)"

text \<open>A small job store: two pending files, one pending job for the first.\<close>

definition file_a :: stl_file where
  "file_a = \<lparr>f_id = 1, f_filename = ''a.stl'', f_filepath = ''/m/a.stl'', f_added_date = 10,
              f_file_size = Some 3, f_status = ''pending''\<rparr>"

definition file_b :: stl_file where
  "file_b = \<lparr>f_id = 2, f_filename = ''b.stl'', f_filepath = ''/m/b.stl'', f_added_date = 20,
              f_file_size = Some 4, f_status = ''pending''\<rparr>"

definition job_a :: render_job where
  "job_a = \<lparr>j_id = 1, j_stl_file_id = Some 1, j_output_path = None,
             j_object_color = (0.5, 0.5, 0.5), j_background_color = (1, 1, 1),
             j_render_date = None, j_render_duration = None, j_status = ''pending'',
             j_error_message = None\<rparr>"

definition db_example :: database where
  "db_example = \<lparr>stl_files = [file_a, file_b], render_jobs = [job_a],
                  stl_files_seq = 2, render_jobs_seq = 1\<rparr>"

text \<open>
  File systems for the examples: a model file at two moments, and an output directory
  holding a composited video beside an audio directory without audio files.
\<close>

definition fs_first :: filesystem where
  "fs_first = [(''/m/c.stl'', ''solid'')]"

definition fs_second :: filesystem where
  "fs_second = [(''/m/c.stl'', ''solid grown'')]"

definition fs_video :: filesystem where
  "fs_video = [(''/out/a_temp.mp4'', ''video bytes''), (''/audio/readme.txt'', ''no music yet'')]"

text \<open>An FFmpeg that fails on every job.\<close>

definition ffmpeg_fails :: ffmpeg_run where
  "ffmpeg_fails job fs = Inl (FfmpegError ''ffmpeg error (see stderr output for detail)'')"

text \<open>
  Worlds for the examples: two model files on disk, an FFmpeg that writes its output, a
  world in which every external step succeeds and one in which Blender exits with code 1
  and the text \<open>boom\<close> on standard error. In \<open>worlds\<close> the first call meets the failing
  Blender, every later call the good one.
\<close>

definition fs_models :: filesystem where
  "fs_models = [(''/m/a.stl'', ''abc''), (''/m/b.stl'', ''abcd'')]"

definition ffmpeg_ok :: ffmpeg_run where
  "ffmpeg_ok job fs =
     (case job of
        FramesToVideo pat fps width height out crf preset \<Rightarrow> Inr (write_file out ''silent video'' fs)
      | MuxAudio video audio out \<Rightarrow> Inr (write_file out ''video with audio'' fs))"

definition world_ok :: world where
  "world_ok = \<lparr>w_base_dir = ''/app'', w_rnd = \<lparr>rnd_choice = 0, rnd_random = 0\<rparr>,
               w_object_color = (0.5, 0.5, 0.5), w_time_register = 40, w_time_completed = 60,
               w_time_failed = 50, w_elapsed = 12,
               w_script_text = (\<lambda>req. ''script''),
               w_blender = (\<lambda>req fs. Inr (0, [], fs)),
               w_ffmpeg = ffmpeg_ok, w_audio_choice = 0\<rparr>"

definition world_blender_fails :: world where
  "world_blender_fails = world_ok\<lparr>w_blender := (\<lambda>req fs. Inr (1, ''boom'', fs))\<rparr>"

definition worlds :: "nat \<Rightarrow> world" where
  "worlds k = (if k = 0 then world_blender_fails else world_ok)"

definition pstate0 :: pstate where
  "pstate0 = \<lparr>st_db = db_example, st_fs = fs_models\<rparr>"

text \<open>Random draws for the examples.\<close>

definition rnd0 :: rnd where
  "rnd0 = \<lparr>rnd_choice = 0, rnd_random = 0\<rparr>"

text \<open>
  More worlds in which one step fails: Blender runs into the timeout, FFmpeg fails on every
  job, FFmpeg assembles the frames but fails to attach audio; and a state whose audio
  directory holds one track.
\<close>

definition world_blender_timeout :: world where
  "world_blender_timeout =
     world_ok\<lparr>w_blender := (\<lambda>req fs. Inl (TimeoutExpired
        ''Command '['blender', '--background', '--python', '/app/temp_render_script.py']' timed out after 3600 seconds''))\<rparr>"

definition world_ffmpeg_fails :: world where
  "world_ffmpeg_fails = world_ok\<lparr>w_ffmpeg := ffmpeg_fails\<rparr>"

definition ffmpeg_mux_fails :: ffmpeg_run where
  "ffmpeg_mux_fails job fs =
     (case job of
        FramesToVideo pat fps width height out crf preset \<Rightarrow> Inr (write_file out ''silent video'' fs)
      | MuxAudio video audio out \<Rightarrow> Inl (FfmpegError ''ffmpeg error (see stderr output for detail)''))"

definition world_mux_fails :: world where
  "world_mux_fails = world_ok\<lparr>w_ffmpeg := ffmpeg_mux_fails\<rparr>"

definition pstate_audio :: pstate where
  "pstate_audio = \<lparr>st_db = db_example,
                    st_fs = fs_models @ [(''/app/data/audio-assets/song.mp3'', ''music'')]\<rparr>"

section \<open>Properties of the orbit planner\<close>

lemma emitted_orbit:
  assumes "orbit_empty s = Some old"
  shows "emitted s (animate_camera_orbit tf fps s) =
     Some [kf 1 0 0 0,
           kf (1 * (tf div 6)) 0 0 60,
           kf (2 * (tf div 6)) 60 0 120,
           kf (3 * (tf div 6)) 120 0 120,
           kf (4 * (tf div 6)) 180 60 120,
           kf (5 * (tf div 6)) 180 120 120,
           kf (6 * (tf div 6)) 180 180 180,
           kf tf 360 360 360]"
  using assms
  by (simp add: animate_camera_orbit_def Let_def emitted_def keyframe_insert_def set_linear_def
      kf_def radians_def mult.commute)

text \<open>
  Claim C1. Whenever the orbit empty exists and \<open>total_frames\<close> is at least 6, the planner
  inserts, in this order: a keyframe at frame 1 with rotation (0, 0, 0); for k = 1..6 a
  keyframe at frame \<open>k * (total_frames div 6)\<close> with the cumulative rotations (0, 0, 60),
  (60, 0, 120), (120, 0, 120), (180, 60, 120), (180, 120, 120), (180, 180, 180) degrees; and
  a last keyframe at frame \<open>total_frames\<close> with rotation (360, 360, 360) degrees, whatever
  the frame rate. For 750 frames the frames that hold a keyframe are
  1, 125, 250, 375, 500, 625 and 750.
\<close>

theorem orbit_keyframes_exact:
  assumes "6 \<le> total_frames" and "orbit_empty s = Some old"
  shows "emitted s (animate_camera_orbit total_frames fps s) =
           Some [kf 1 0 0 0,
                 kf (1 * (total_frames div 6)) 0 0 60,
                 kf (2 * (total_frames div 6)) 60 0 120,
                 kf (3 * (total_frames div 6)) 120 0 120,
                 kf (4 * (total_frames div 6)) 180 60 120,
                 kf (5 * (total_frames div 6)) 180 120 120,
                 kf (6 * (total_frames div 6)) 180 180 180,
                 kf total_frames 360 360 360]
         \<and> (\<exists>ks. emitted s (animate_camera_orbit 750 fps s) = Some ks
                \<and> frame ` set ks = {1, 125, 250, 375, 500, 625, 750})"
proof -
  have "frame ` set [kf 1 0 0 0, kf (1 * (750 div 6)) 0 0 60, kf (2 * (750 div 6)) 60 0 120,
           kf (3 * (750 div 6)) 120 0 120, kf (4 * (750 div 6)) 180 60 120,
           kf (5 * (750 div 6)) 180 120 120, kf (6 * (750 div 6)) 180 180 180,
           kf 750 360 360 360] = {1, 125, 250, 375, 500, 625, 750}"
    by (simp add: kf_def)
  then show ?thesis
    using emitted_orbit [OF assms(2)] by blast
qed

theorem orbit_keyframes_exact_witness:
  "(6::int) \<le> 50 \<and> orbit_empty scene0 = Some [] \<and>
   emitted scene0 (animate_camera_orbit 50 10 scene0) =
     Some [kf 1 0 0 0, kf 8 0 0 60, kf 16 60 0 120, kf 24 120 0 120, kf 32 180 60 120,
           kf 40 180 120 120, kf 48 180 180 180, kf 50 360 360 360]"
  using orbit_keyframes_exact [of 50 scene0 "[]" 10]
  by (simp add: scene0_def)

text \<open>
  Claim C10. The shipped configuration has \<open>TOTAL_FRAMES = 5 * 10 = 50\<close> and \<open>FPS = 10\<close>; the
  generated script passes both to \<open>render_video\<close>, so the planner runs with 50 frames at
  rate 10: 8 frames per segment, segment keyframes at frames 8, 16, 24, 32, 40 and 48, and
  the last keyframe at frame 50.
\<close>

theorem shipped_configuration_orbit:
  "TOTAL_FRAMES = 50 \<and> FPS = 10
   \<and> req_total_frames (generate_blender_script p d oc bc) = 50
   \<and> req_fps (generate_blender_script p d oc bc) = 10
   \<and> TOTAL_FRAMES div 6 = 8
   \<and> (\<exists>s'. render_video (generate_blender_script p d oc bc) s = Inr s'
          \<and> orbit_empty s' =
              Some [kf 1 0 0 0, kf 8 0 0 60, kf 16 60 0 120, kf 24 120 0 120, kf 32 180 60 120,
                    kf 40 180 120 120, kf 48 180 180 180, kf 50 360 360 360])"
  by (simp add: TOTAL_FRAMES_def FPS_def VIDEO_DURATION_def generate_blender_script_def
      render_video_def clear_scene_def setup_camera_def animate_camera_orbit_def Let_def
      keyframe_insert_def set_linear_def kf_def radians_def)

lemma card_frames_8:
  fixes d tf :: int
  assumes "2 \<le> d" "6 * d < tf"
  shows "card (set [1, 1 * d, 2 * d, 3 * d, 4 * d, 5 * d, 6 * d, tf]) = 8"
proof -
  have "distinct [1, 1 * d, 2 * d, 3 * d, 4 * d, 5 * d, 6 * d, tf]"
    using assms by auto
  then show ?thesis by (simp only: distinct_card) simp
qed

lemma card_frames_7:
  fixes d tf :: int
  assumes "2 \<le> d" "6 * d = tf"
  shows "card (set [1, 1 * d, 2 * d, 3 * d, 4 * d, 5 * d, 6 * d, tf]) = 7"
proof -
  have eq: "set [1, 1 * d, 2 * d, 3 * d, 4 * d, 5 * d, 6 * d, tf] = set [1, 1 * d, 2 * d, 3 * d, 4 * d, 5 * d, 6 * d]"
    using assms by auto
  have "distinct [1, 1 * d, 2 * d, 3 * d, 4 * d, 5 * d, 6 * d]"
    using assms by auto
  then have "card (set [1, 1 * d, 2 * d, 3 * d, 4 * d, 5 * d, 6 * d]) = 7"
    by (simp only: distinct_card) simp
  with eq show ?thesis by simp
qed

text \<open>
  Claim C2, as amended. Whenever the orbit empty exists and \<open>total_frames\<close> is at least 6,
  the planner inserts exactly 8 keyframes: the initial one, the 6 segment ends and a last
  one at frame \<open>total_frames\<close> with rotation (360, 360, 360) degrees. The sixth segment end
  is at frame \<open>6 * (total_frames div 6)\<close>, which is \<open>total_frames mod 6\<close> frames before the
  last keyframe. From 12 frames on, the 8 keyframes lie on 7 distinct frames when 6 divides
  \<open>total_frames\<close> (the last two share a frame) and on 8 distinct frames otherwise.
\<close>

theorem orbit_keyframe_count:
  assumes "6 \<le> total_frames" and "orbit_empty s = Some old"
  shows "\<exists>ks. emitted s (animate_camera_orbit total_frames fps s) = Some ks
           \<and> length ks = 8
           \<and> hd ks = kf 1 0 0 0
           \<and> last ks = kf total_frames 360 360 360
           \<and> frame (ks ! 6) = 6 * (total_frames div 6)
           \<and> total_frames - frame (ks ! 6) = total_frames mod 6
           \<and> (12 \<le> total_frames \<longrightarrow>
                card (frame ` set ks) = (if total_frames mod 6 = 0 then 7 else 8))"
proof -
  let ?d = "total_frames div 6"
  let ?ks = "[kf 1 0 0 0, kf (1 * ?d) 0 0 60, kf (2 * ?d) 60 0 120, kf (3 * ?d) 120 0 120,
              kf (4 * ?d) 180 60 120, kf (5 * ?d) 180 120 120, kf (6 * ?d) 180 180 180,
              kf total_frames 360 360 360]"
  have e: "emitted s (animate_camera_orbit total_frames fps s) = Some ?ks"
    by (rule emitted_orbit [OF assms(2)])
  have fr: "frame ` set ?ks = set [1, 1 * ?d, 2 * ?d, 3 * ?d, 4 * ?d, 5 * ?d, 6 * ?d, total_frames]"
    by (simp add: kf_def)
  have m: "total_frames - 6 * ?d = total_frames mod 6"
    by (simp add: minus_mult_div_eq_mod)
  have c: "card (frame ` set ?ks) = (if total_frames mod 6 = 0 then 7 else 8)"
    if "12 \<le> total_frames"
  proof -
    have d2: "2 \<le> ?d" using that by simp
    show ?thesis
    proof (cases "total_frames mod 6 = 0")
      case True
      then have "6 * ?d = total_frames" by auto
      from card_frames_7 [OF d2 this] True fr show ?thesis by simp
    next
      case False
      then have "6 * ?d < total_frames"
        using m by (smt (verit) pos_mod_sign)
      from card_frames_8 [OF d2 this] False fr show ?thesis by simp
    qed
  qed
  have "length ?ks = 8 \<and> hd ?ks = kf 1 0 0 0 \<and> last ?ks = kf total_frames 360 360 360
        \<and> frame (?ks ! 6) = 6 * ?d"
    by (simp add: kf_def)
  with e m c show ?thesis by auto
qed

theorem orbit_keyframe_count_witness:
  "(6::int) \<le> 50 \<and> orbit_empty scene0 = Some [] \<and> (12::int) \<le> 50
   \<and> (\<exists>ks. emitted scene0 (animate_camera_orbit 50 10 scene0) = Some ks
          \<and> length ks = 8 \<and> last ks = kf 50 360 360 360 \<and> frame (ks ! 6) = 48
          \<and> card (frame ` set ks) = 8)"
proof -
  have h1: "(6::int) \<le> 50" by simp
  have h2: "orbit_empty scene0 = Some []" by (simp add: scene0_def)
  from orbit_keyframe_count [OF h1 h2, of 10]
  obtain ks where k: "emitted scene0 (animate_camera_orbit 50 10 scene0) = Some ks"
      "length ks = 8" "last ks = kf 50 360 360 360" "frame (ks ! 6) = 6 * (50 div 6)"
      "12 \<le> (50::int) \<longrightarrow> card (frame ` set ks) = (if (50::int) mod 6 = 0 then 7 else 8)"
    by blast
  from k(4) have a: "frame (ks ! 6) = 48" by simp
  from k(5) have b: "card (frame ` set ks) = 8" by simp
  from h2 k(1-3) a b show ?thesis by auto
qed


text \<open>
  The claim as written (exactly 7 points for every \<open>total_frames\<close>) fails for the shipped
  50 frames: 8 keyframes on 8 distinct frames.
\<close>

theorem orbit_seven_points_counterexample:
  "orbit_frames 50 10 scene0 = [1, 8, 16, 24, 32, 40, 48, 50]
   \<and> length (orbit_frames 50 10 scene0) \<noteq> 7
   \<and> card (set (orbit_frames 50 10 scene0)) \<noteq> 7"
proof -
  have fr: "orbit_frames 50 10 scene0 = [1, 8, 16, 24, 32, 40, 48, 50]"
    by (simp add: orbit_frames_def emitted_orbit scene0_def kf_def)
  have "distinct [1, 8, 16, 24, 32, 40, 48, 50 :: int]" by simp
  then have "card (set [1, 8, 16, 24, 32, 40, 48, 50 :: int]) = 8"
    by (simp only: distinct_card) simp
  with fr show ?thesis by simp
qed

section \<open>Properties of the job store\<close>

lemma find_map_job:
  assumes "\<And>j. j_id (g j) = j_id j"
  shows "find (\<lambda>j. j_id j = i) (map (\<lambda>j. if j_id j = i then g j else j) js)
         = map_option g (find (\<lambda>j. j_id j = i) js)"
  using assms by (induction js) auto

lemma j_id_set_outcome: "j_id (set_outcome now st op rd em j) = j_id j"
  by (simp add: set_outcome_def)

lemma j_stl_file_id_set_outcome: "j_stl_file_id (set_outcome now st op rd em j) = j_stl_file_id j"
  by (simp add: set_outcome_def)

lemma update_render_job_completed:
  "update_render_job now job_id ''completed'' op rd em db =
     Inr (db\<lparr>render_jobs := map (\<lambda>j. if j_id j = job_id then set_outcome now ''completed'' op rd em j else j) (render_jobs db),
           stl_files := map (\<lambda>f. if Some (f_id f) = (case find (\<lambda>j. j_id j = job_id) (render_jobs db) of None \<Rightarrow> None | Some j \<Rightarrow> j_stl_file_id j)
                                  then f\<lparr>f_status := ''completed''\<rparr> else f) (stl_files db)\<rparr>)"
proof -
  have "find (\<lambda>j. j_id j = job_id)
          (map (\<lambda>j. if j_id j = job_id then set_outcome now ''completed'' op rd em j else j) (render_jobs db))
        = map_option (set_outcome now ''completed'' op rd em) (find (\<lambda>j. j_id j = job_id) (render_jobs db))"
    by (rule find_map_job) (rule j_id_set_outcome)
  then show ?thesis
    by (cases "find (\<lambda>j. j_id j = job_id) (render_jobs db)")
       (simp_all add: update_render_job_def Let_def j_stl_file_id_set_outcome)
qed

lemma update_render_job_other:
  "status \<noteq> ''completed'' \<Longrightarrow>
   update_render_job now job_id status op rd em db =
     Inr (db\<lparr>render_jobs := map (\<lambda>j. if j_id j = job_id then set_outcome now status op rd em j else j) (render_jobs db)\<rparr>)"
  by (simp add: update_render_job_def Let_def)

text \<open>
  Claim C3. For a job that exists, \<open>update_render_job\<close> with status \<open>completed\<close> sets the
  status of the file the job refers to to \<open>completed\<close> and changes no other file row and no
  other column; with status \<open>failed\<close> it leaves the file table as it was.
\<close>

theorem update_render_job_file_status:
  assumes "find (\<lambda>j. j_id j = job_id) (render_jobs db) = Some job"
  shows "\<exists>db1 db2.
           update_render_job now job_id ''completed'' op rd em db = Inr db1
         \<and> stl_files db1 =
             map (\<lambda>f. if Some (f_id f) = j_stl_file_id job then f\<lparr>f_status := ''completed''\<rparr> else f)
               (stl_files db)
         \<and> update_render_job now job_id ''failed'' op rd em db = Inr db2
         \<and> stl_files db2 = stl_files db"
  using assms by (simp add: update_render_job_completed update_render_job_other)

theorem update_render_job_file_status_witness:
  "find (\<lambda>j. j_id j = 1) (render_jobs db_example) = Some job_a
   \<and> (\<exists>db1 db2.
         update_render_job 30 1 ''completed'' (Some ''/out/a.mp4'') (Some 12) None db_example = Inr db1
       \<and> stl_files db1 = [file_a\<lparr>f_status := ''completed''\<rparr>, file_b]
       \<and> update_render_job 30 1 ''failed'' (Some ''/out/a.mp4'') (Some 12) None db_example = Inr db2
       \<and> stl_files db2 = [file_a, file_b])"
proof -
  have h: "find (\<lambda>j. j_id j = 1) (render_jobs db_example) = Some job_a"
    by (simp add: db_example_def job_a_def)
  from update_render_job_file_status [OF h, of 30 "Some ''/out/a.mp4''" "Some 12" None]
  show ?thesis using h
    by (simp add: db_example_def job_a_def file_a_def file_b_def)
qed

text \<open>
  Claim C5, as amended. For a job id that no render job has, \<open>update_render_job\<close> returns
  normally, without any error, and leaves the stored state unchanged.
\<close>

theorem update_unknown_job_silent:
  assumes "job_id \<notin> j_id ` set (render_jobs db)"
  shows "update_render_job now job_id status op rd em db = Inr db"
proof -
  have m: "map (\<lambda>j. if j_id j = job_id then set_outcome now st op rd em j else j) (render_jobs db) = render_jobs db" for st
    using assms by (intro map_idI) auto
  have f: "find (\<lambda>j. j_id j = job_id) (render_jobs db) = None"
    using assms by (auto simp: find_None_iff)
  show ?thesis
  proof (cases "status = ''completed''")
    case True
    then show ?thesis by (simp add: update_render_job_completed m f)
  next
    case False
    then show ?thesis by (simp add: update_render_job_other m)
  qed
qed

theorem update_unknown_job_silent_witness:
  "7 \<notin> j_id ` set (render_jobs db_example)
   \<and> update_render_job 30 7 ''failed'' None None (Some ''boom'') db_example = Inr db_example"
proof -
  have h: "7 \<notin> j_id ` set (render_jobs db_example)"
    by (simp add: db_example_def job_a_def)
  from update_unknown_job_silent [OF h] h show ?thesis by blast
qed

text \<open>
  The claim as written (the call fails with a storage error) does not hold: on a store
  without job 7 the call returns normally.
\<close>

theorem update_unknown_job_counterexample:
  "\<not> isl (update_render_job 30 7 ''completed'' None None None db_example)
   \<and> update_render_job 30 7 ''completed'' None None None db_example = Inr db_example"
  by (simp add: update_render_job_def Let_def db_example_def job_a_def)

lemma find_snoc:
  "find P (xs @ [x]) = (case find P xs of Some y \<Rightarrow> Some y | None \<Rightarrow> if P x then Some x else None)"
  by (induction xs) auto

text \<open>
  Claim C4. For a path that can be read at both calls and whose file name is not registered
  yet, registering it twice adds exactly one row: the first call appends a pending row that
  holds the file's size at that moment, the second call changes no row of either table (even
  when the file has grown meanwhile) and returns the id the first call returned.
\<close>

theorem add_stl_file_twice:
  assumes "map_of fs1 path = Some c1" and "map_of fs2 path = Some c2"
    and "find (\<lambda>f. f_filename f = path_name path) (stl_files db) = None"
  shows "\<exists>r db1 db2.
           add_stl_file t1 fs1 path db = Inr (Some r, db1)
         \<and> add_stl_file t2 fs2 path db1 = Inr (Some r, db2)
         \<and> stl_files db1 = stl_files db @
              [\<lparr>f_id = r, f_filename = path_name path, f_filepath = path, f_added_date = t1,
                f_file_size = Some (int (length c1)), f_status = ''pending''\<rparr>]
         \<and> stl_files db2 = stl_files db1
         \<and> render_jobs db1 = render_jobs db \<and> render_jobs db2 = render_jobs db"
  using assms
  by (simp add: add_stl_file_def stat_st_size_def insert_or_ignore_stl_file_def Let_def find_snoc)

theorem add_stl_file_twice_witness:
  "map_of fs_first ''/m/c.stl'' = Some ''solid''
   \<and> map_of fs_second ''/m/c.stl'' = Some ''solid grown''
   \<and> find (\<lambda>f. f_filename f = path_name ''/m/c.stl'') (stl_files db_example) = None
   \<and> (\<exists>db1 db2.
         add_stl_file 40 fs_first ''/m/c.stl'' db_example = Inr (Some 3, db1)
       \<and> add_stl_file 50 fs_second ''/m/c.stl'' db1 = Inr (Some 3, db2)
       \<and> stl_files db1 = [file_a, file_b,
              \<lparr>f_id = 3, f_filename = ''c.stl'', f_filepath = ''/m/c.stl'', f_added_date = 40,
                f_file_size = Some 5, f_status = ''pending''\<rparr>]
       \<and> stl_files db2 = stl_files db1)"
proof -
  have h1: "map_of fs_first ''/m/c.stl'' = Some ''solid''" by (simp add: fs_first_def)
  have h2: "map_of fs_second ''/m/c.stl'' = Some ''solid grown''" by (simp add: fs_second_def)
  have h3: "find (\<lambda>f. f_filename f = path_name ''/m/c.stl'') (stl_files db_example) = None"
    by (simp add: db_example_def file_a_def file_b_def path_name_def)
  from add_stl_file_twice [OF h1 h2 h3, of 40 50]
  obtain r db1 db2 where k:
      "add_stl_file 40 fs_first ''/m/c.stl'' db_example = Inr (Some r, db1)"
      "add_stl_file 50 fs_second ''/m/c.stl'' db1 = Inr (Some r, db2)"
      "stl_files db1 = stl_files db_example @
              [\<lparr>f_id = r, f_filename = path_name ''/m/c.stl'', f_filepath = ''/m/c.stl'',
                f_added_date = 40, f_file_size = Some (int (length ''solid'')),
                f_status = ''pending''\<rparr>]"
      "stl_files db2 = stl_files db1"
    by blast
  have r: "r = 3"
    using k(1)
    by (simp add: add_stl_file_def stat_st_size_def fs_first_def insert_or_ignore_stl_file_def
        Let_def db_example_def file_a_def file_b_def path_name_def new_rowid_def)
  from k(3) have "stl_files db1 = [file_a, file_b,
              \<lparr>f_id = 3, f_filename = ''c.stl'', f_filepath = ''/m/c.stl'', f_added_date = 40,
                f_file_size = Some 5, f_status = ''pending''\<rparr>]"
    by (simp add: r db_example_def path_name_def)
  with h1 h2 h3 k r show ?thesis by blast
qed

text \<open>
  What \<open>get_pending_files\<close> guarantees: only pending files, oldest first; at most \<open>n\<close> rows
  for a positive limit \<open>n\<close>; every pending file without a limit.
\<close>

lemma get_pending_files_only_pending:
  "set (get_pending_files limit db) \<subseteq> {f \<in> set (stl_files db). f_status f = ''pending''}"
  by (auto simp: get_pending_files_def sql_limit_def Let_def split: option.splits if_splits
      dest: in_set_takeD)

lemma get_pending_files_oldest_first:
  "sorted (map f_added_date (get_pending_files limit db))"
  by (auto simp: get_pending_files_def sql_limit_def Let_def take_map [symmetric] sorted_wrt_take
      split: option.splits)

lemma get_pending_files_positive_limit:
  "0 < n \<Longrightarrow> length (get_pending_files (Some n) db) \<le> nat n"
  by (simp add: get_pending_files_def sql_limit_def Let_def)

lemma get_pending_files_no_limit:
  "get_pending_files None db =
     sort_key f_added_date (filter (\<lambda>f. f_status f = ''pending'') (stl_files db))"
  by (simp add: get_pending_files_def)

text \<open>
  Claim C6. The result holds only pending files, oldest first, and a supplied limit, 0
  included, bounds its length. The code meets this except for the limit 0, which Python's
  \<open>if limit:\<close> treats as no limit: in the example store the call with limit 0 returns both
  pending files.
\<close>

theorem get_pending_files_limit_zero:
  "get_pending_files (Some 0) db_example = [file_a, file_b]
   \<and> \<not> length (get_pending_files (Some 0) db_example) \<le> 0"
  by (simp add: get_pending_files_def db_example_def file_a_def file_b_def)

section \<open>Properties of the compositor\<close>

text \<open>The orchestrator's pre-audio video and final output are never the same path.\<close>

lemma temp_video_differs:
  "path_join out (stem @ ''_temp.mp4'') \<noteq> path_join out (stem @ ''.mp4'')"
  by (simp add: path_join_def)

text \<open>
  Claim C9. When the audio directory holds no \<open>.mp3\<close>, \<open>.wav\<close> or \<open>.m4a\<close> file, the audio step
  copies the pre-audio video (which exists, at a path other than the output path) to the
  output path unchanged, touches no other file, starts no FFmpeg run, and returns the
  output path without an error.
\<close>

theorem add_random_audio_pass_through:
  assumes "glob_ext fs audio_dir ''.mp3'' = []" and "glob_ext fs audio_dir ''.wav'' = []"
    and "glob_ext fs audio_dir ''.m4a'' = []"
    and "map_of fs video_path = Some c" and "video_path \<noteq> output_path"
  shows "\<exists>fs'. add_random_audio ffmpeg choice video_path output_path audio_dir fs
                 = Inr (output_path, fs')
             \<and> map_of fs' = (map_of fs)(output_path \<mapsto> c)
             \<and> map_of fs' output_path = map_of fs video_path"
  using assms
  by (simp add: add_random_audio_def shutil_copy_def write_file_def update_conv')

theorem add_random_audio_pass_through_witness:
  "glob_ext fs_video ''/audio'' ''.mp3'' = [] \<and> glob_ext fs_video ''/audio'' ''.wav'' = []
   \<and> glob_ext fs_video ''/audio'' ''.m4a'' = []
   \<and> map_of fs_video ''/out/a_temp.mp4'' = Some ''video bytes''
   \<and> ''/out/a_temp.mp4'' \<noteq> ''/out/a.mp4''
   \<and> (\<exists>fs'. add_random_audio ffmpeg_fails 0 ''/out/a_temp.mp4'' ''/out/a.mp4'' ''/audio'' fs_video
               = Inr (''/out/a.mp4'', fs')
           \<and> map_of fs' ''/out/a.mp4'' = Some ''video bytes'')"
proof -
  have g: "glob_ext fs_video ''/audio'' ''.mp3'' = []" "glob_ext fs_video ''/audio'' ''.wav'' = []"
      "glob_ext fs_video ''/audio'' ''.m4a'' = []"
    by (simp_all add: glob_ext_def fs_video_def path_name_def path_join_def ends_with_def)
  have v: "map_of fs_video ''/out/a_temp.mp4'' = Some ''video bytes''"
    by (simp add: fs_video_def)
  have d: "''/out/a_temp.mp4'' \<noteq> ''/out/a.mp4''" by simp
  from add_random_audio_pass_through [OF g v d, of ffmpeg_fails 0]
  obtain fs' where k: "add_random_audio ffmpeg_fails 0 ''/out/a_temp.mp4'' ''/out/a.mp4'' ''/audio'' fs_video
               = Inr (''/out/a.mp4'', fs')" "map_of fs' ''/out/a.mp4'' = map_of fs_video ''/out/a_temp.mp4''"
    by blast
  from k(2) v have "map_of fs' ''/out/a.mp4'' = Some ''video bytes''" by simp
  with g v d k(1) show ?thesis by blast
qed

section \<open>Properties of the orchestrator\<close>

lemmas pipeline_defs =
  render_single_file_def render_single_file_try_def render_stages_def
  get_color_palette_def generate_contrasting_color_def rgb_to_hsv_def hsv_to_rgb_def
  py_mod1_def py_int_def add_stl_file_def stat_st_size_def insert_or_ignore_stl_file_def
  new_rowid_def create_render_job_def Let_def generate_blender_script_def write_file_def
  path_name_def path_stem_def rfind_dot_def path_join_def
  create_video_from_frames_def add_random_audio_def glob_ext_def ends_with_def
  shutil_copy_def unlink_def path_exists_def update_render_job_def set_outcome_def
  DATA_DIR_def RENDERS_DIR_def OUTPUT_DIR_def AUDIO_DIR_def

lemmas example_defs =
  world_blender_fails_def world_ok_def pstate0_def db_example_def file_a_def file_b_def
  job_a_def fs_models_def ffmpeg_ok_def worlds_def

lemmas more_example_defs =
  world_blender_timeout_def world_ffmpeg_fails_def ffmpeg_mux_fails_def world_mux_fails_def
  pstate_audio_def ffmpeg_fails_def

lemma update_render_job_returns:
  "\<exists>db'. update_render_job now job_id status op rd em db = Inr db'"
  by (simp add: update_render_job_def Let_def)

lemma update_render_job_job_ids:
  "update_render_job now job_id status op rd em db = Inr db' \<Longrightarrow>
   map j_id (render_jobs db') = map j_id (render_jobs db)"
  by (auto simp: update_render_job_def Let_def j_id_set_outcome split: if_splits)

lemma update_render_job_failed_rows:
  assumes "update_render_job now job_id ''failed'' None None (Some m) db = Inr db'"
  shows "stl_files db' = stl_files db"
    and "\<forall>job \<in> set (render_jobs db'). j_id job = job_id \<longrightarrow>
           j_status job = ''failed'' \<and> j_error_message job = Some m"
proof -
  have "''failed'' \<noteq> ''completed''" by simp
  from update_render_job_other [OF this, of now job_id None None "Some m" db] assms
  have d: "db' = db\<lparr>render_jobs := map (\<lambda>j. if j_id j = job_id
                 then set_outcome now ''failed'' None None (Some m) j else j) (render_jobs db)\<rparr>"
    by simp
  show "stl_files db' = stl_files db" by (simp add: d)
  have "j_status (set_outcome now ''failed'' None None (Some m) j) = ''failed''
        \<and> j_error_message (set_outcome now ''failed'' None None (Some m) j) = Some m" for j
    by (simp add: set_outcome_def)
  then show "\<forall>job \<in> set (render_jobs db'). j_id job = job_id \<longrightarrow>
           j_status job = ''failed'' \<and> j_error_message job = Some m"
    unfolding d by (auto simp: j_id_set_outcome split: if_splits)
qed

lemma render_stages_failure_job_ids:
  assumes "render_stages w p job_id oc bc st = Inl (e, st1)"
  shows "map j_id (render_jobs (st_db st1)) = map j_id (render_jobs (st_db st))"
proof -
  define base where "base = w_base_dir w"
  define render_dir where "render_dir = path_join (RENDERS_DIR base) (path_stem p)"
  define script where "script = generate_blender_script p render_dir oc bc"
  define temp_script where "temp_script = path_join base ''temp_render_script.py''"
  define fs1 where "fs1 = write_file temp_script (w_script_text w script) (st_fs st)"
  define temp_video where "temp_video = path_join (OUTPUT_DIR base) (path_stem p @ ''_temp.mp4'')"
  define out where "out = path_join (OUTPUT_DIR base) (path_stem p @ ''.mp4'')"
  note defs = base_def render_dir_def script_def temp_script_def fs1_def temp_video_def out_def
  have unf: "render_stages w p job_id oc bc st =
      (case w_blender w script fs1 of
           Inl e \<Rightarrow> Inl (e, st\<lparr>st_fs := fs1\<rparr>)
         | Inr (returncode, stderr, fs2) \<Rightarrow>
            if returncode \<noteq> 0
            then Inl (RuntimeError (''Blender render failed: '' @ stderr), st\<lparr>st_fs := fs2\<rparr>)
            else
              (case create_video_from_frames (w_ffmpeg w) FPS render_dir temp_video
                      VIDEO_WIDTH VIDEO_HEIGHT 18 ''medium'' fs2 of
                 Inl e \<Rightarrow> Inl (e, st\<lparr>st_fs := fs2\<rparr>)
               | Inr (created, fs3) \<Rightarrow>
                  (case add_random_audio (w_ffmpeg w) (w_audio_choice w) temp_video out
                          (AUDIO_DIR base) fs3 of
                     Inl e \<Rightarrow> Inl (e, st\<lparr>st_fs := fs3\<rparr>)
                   | Inr (output_video, fs4) \<Rightarrow>
                      (case update_render_job (w_time_completed w) job_id ''completed''
                                 (Some output_video) (Some (w_elapsed w)) None (st_db st) of
                            Inl e \<Rightarrow> Inl (e, st\<lparr>st_fs := (if path_exists fs4 temp_video
                                  then AList.delete temp_video fs4 else fs4)\<rparr>)
                          | Inr db1 \<Rightarrow>
                             (case unlink temp_script (if path_exists fs4 temp_video
                                  then AList.delete temp_video fs4 else fs4) of
                                Inl e \<Rightarrow> Inl (e, \<lparr>st_db = db1, st_fs = (if path_exists fs4 temp_video
                                  then AList.delete temp_video fs4 else fs4)\<rparr>)
                              | Inr fs6 \<Rightarrow> Inr (output_video, \<lparr>st_db = db1, st_fs = fs6\<rparr>))))))"
    unfolding render_stages_def Let_def defs ..
  show ?thesis
  proof (cases "w_blender w script fs1")
    case (Inl a)
    with assms unf show ?thesis by auto
  next
    case (Inr b)
    obtain rc err fs2 where b: "b = (rc, err, fs2)" by (cases b)
    show ?thesis
    proof (cases "rc \<noteq> 0")
      case True
      with assms unf Inr b show ?thesis by auto
    next
      case rc0: False
      show ?thesis
      proof (cases "create_video_from_frames (w_ffmpeg w) FPS render_dir temp_video
                      VIDEO_WIDTH VIDEO_HEIGHT 18 ''medium'' fs2")
        case (Inl a)
        with assms unf Inr b rc0 show ?thesis by auto
      next
        case cv: (Inr c)
        obtain created fs3 where c: "c = (created, fs3)" by (cases c)
        show ?thesis
        proof (cases "add_random_audio (w_ffmpeg w) (w_audio_choice w) temp_video out
                          (AUDIO_DIR base) fs3")
          case (Inl a)
          with assms unf Inr b rc0 cv c show ?thesis by auto
        next
          case au: (Inr d)
          obtain output_video fs4 where d: "d = (output_video, fs4)" by (cases d)
          show ?thesis
          proof (cases "update_render_job (w_time_completed w) job_id ''completed''
                                 (Some output_video) (Some (w_elapsed w)) None (st_db st)")
            case (Inl a)
            with assms unf Inr b rc0 cv c au d show ?thesis by auto
          next
            case up: (Inr db1)
            from update_render_job_job_ids [OF up]
            have ids: "map j_id (render_jobs db1) = map j_id (render_jobs (st_db st))" .
            from assms unf Inr b rc0 cv c au d up ids show ?thesis
              by (auto split: sum.splits)
          qed
        qed
      qed
    qed
  qed
qed

lemma create_render_job_new_id:
  "create_render_job fid oc bc db = (job_id, db2) \<Longrightarrow> job_id \<in> set (map j_id (render_jobs db2))"
  by (auto simp: create_render_job_def Let_def)

lemma try_failure_job_exists:
  assumes "render_single_file_try w p st = Inl (e, Some job_id, st1)"
  shows "job_id \<in> j_id ` set (render_jobs (st_db st1))"
proof -
  obtain oc bc where pal: "get_color_palette (w_rnd w) (w_object_color w) = (oc, bc)"
    by (cases "get_color_palette (w_rnd w) (w_object_color w)")
  show ?thesis
  proof (cases "add_stl_file (w_time_register w) (st_fs st) p (st_db st)")
    case (Inl a)
    with assms pal show ?thesis by (simp add: render_single_file_try_def)
  next
    case (Inr a)
    obtain fid db1 where a: "a = (fid, db1)" by (cases a)
    obtain j db2 where c: "create_render_job fid oc bc db1 = (j, db2)"
      by (cases "create_render_job fid oc bc db1")
    show ?thesis
    proof (cases "render_stages w p j oc bc (st\<lparr>st_db := db2\<rparr>)")
      case rs: (Inl b)
      obtain e' st' where b: "b = (e', st')" by (cases b)
      from assms pal Inr a c rs b have eq: "j = job_id" "st' = st1"
        by (simp_all add: render_single_file_try_def)
      from rs b eq have r: "render_stages w p job_id oc bc (st\<lparr>st_db := db2\<rparr>) = Inl (e', st1)"
        by simp
      have "map j_id (render_jobs (st_db st1)) = map j_id (render_jobs db2)"
        using render_stages_failure_job_ids [OF r] by simp
      moreover from c eq have "job_id \<in> set (map j_id (render_jobs db2))"
        by (auto dest: create_render_job_new_id)
      ultimately have "job_id \<in> set (map j_id (render_jobs (st_db st1)))"
        by (simp only:)
      then show ?thesis by simp
    next
      case rs: (Inr b)
      with assms pal Inr a c show ?thesis by (simp add: render_single_file_try_def)
    qed
  qed
qed

lemma render_single_file_returns:
  "\<exists>r st'. render_single_file w p st = Inr (r, st')"
proof (cases "render_single_file_try w p st")
  case (Inr a)
  then show ?thesis by (cases a) (simp add: render_single_file_def)
next
  case (Inl a)
  obtain e job st1 where a: "a = (e, job, st1)" by (cases a)
  show ?thesis
  proof (cases job)
    case None
    with Inl a show ?thesis by (simp add: render_single_file_def)
  next
    case (Some job_id)
    obtain db' where "update_render_job (w_time_failed w) job_id ''failed'' None None
                        (Some (str_of_error e)) (st_db st1) = Inr db'"
      using update_render_job_returns by blast
    with Inl a Some show ?thesis by (simp add: render_single_file_def)
  qed
qed

lemma try_after_setup:
  assumes "get_color_palette (w_rnd w) (w_object_color w) = (oc, bc)"
    and "add_stl_file (w_time_register w) (st_fs st) p (st_db st) = Inr (fid, db1)"
    and "create_render_job fid oc bc db1 = (job_id, db2)"
  shows "render_single_file_try w p st =
           (case render_stages w p job_id oc bc (st\<lparr>st_db := db2\<rparr>) of
              Inl (e, st') \<Rightarrow> Inl (e, Some job_id, st')
            | Inr r \<Rightarrow> Inr r)"
  using assms by (simp add: render_single_file_try_def)

lemma stage_blender_raises:
  assumes "script = generate_blender_script p
                      (path_join (RENDERS_DIR (w_base_dir w)) (path_stem p)) oc bc"
    and "fs1 = write_file (path_join (w_base_dir w) ''temp_render_script.py'')
                 (w_script_text w script) (st_fs st)"
    and "w_blender w script fs1 = Inl e"
  shows "render_stages w p job_id oc bc st = Inl (e, st\<lparr>st_fs := fs1\<rparr>)"
  unfolding render_stages_def Let_def assms(1,2) [symmetric] using assms(3) by simp

lemma stage_blender_exit_code:
  assumes "script = generate_blender_script p
                      (path_join (RENDERS_DIR (w_base_dir w)) (path_stem p)) oc bc"
    and "fs1 = write_file (path_join (w_base_dir w) ''temp_render_script.py'')
                 (w_script_text w script) (st_fs st)"
    and "w_blender w script fs1 = Inr (rc, err, fs2)" and "rc \<noteq> 0"
  shows "render_stages w p job_id oc bc st
           = Inl (RuntimeError (''Blender render failed: '' @ err), st\<lparr>st_fs := fs2\<rparr>)"
  unfolding render_stages_def Let_def assms(1,2) [symmetric] using assms(3,4) by simp

lemma stage_compositing_fails:
  assumes "script = generate_blender_script p
                      (path_join (RENDERS_DIR (w_base_dir w)) (path_stem p)) oc bc"
    and "fs1 = write_file (path_join (w_base_dir w) ''temp_render_script.py'')
                 (w_script_text w script) (st_fs st)"
    and "w_blender w script fs1 = Inr (0, err, fs2)"
    and "create_video_from_frames (w_ffmpeg w) FPS
           (path_join (RENDERS_DIR (w_base_dir w)) (path_stem p))
           (path_join (OUTPUT_DIR (w_base_dir w)) (path_stem p @ ''_temp.mp4''))
           VIDEO_WIDTH VIDEO_HEIGHT 18 ''medium'' fs2 = Inl e"
  shows "render_stages w p job_id oc bc st = Inl (e, st\<lparr>st_fs := fs2\<rparr>)"
  unfolding render_stages_def Let_def assms(1,2) [symmetric] using assms(3,4) by simp

lemma stage_audio_fails:
  assumes "script = generate_blender_script p
                      (path_join (RENDERS_DIR (w_base_dir w)) (path_stem p)) oc bc"
    and "fs1 = write_file (path_join (w_base_dir w) ''temp_render_script.py'')
                 (w_script_text w script) (st_fs st)"
    and "w_blender w script fs1 = Inr (0, err, fs2)"
    and "create_video_from_frames (w_ffmpeg w) FPS
           (path_join (RENDERS_DIR (w_base_dir w)) (path_stem p))
           (path_join (OUTPUT_DIR (w_base_dir w)) (path_stem p @ ''_temp.mp4''))
           VIDEO_WIDTH VIDEO_HEIGHT 18 ''medium'' fs2 = Inr (created, fs3)"
    and "add_random_audio (w_ffmpeg w) (w_audio_choice w)
           (path_join (OUTPUT_DIR (w_base_dir w)) (path_stem p @ ''_temp.mp4''))
           (path_join (OUTPUT_DIR (w_base_dir w)) (path_stem p @ ''.mp4''))
           (AUDIO_DIR (w_base_dir w)) fs3 = Inl e"
  shows "render_stages w p job_id oc bc st = Inl (e, st\<lparr>st_fs := fs3\<rparr>)"
  unfolding render_stages_def Let_def assms(1,2) [symmetric] using assms(3,4,5) by simp

lemma process_files_trace:
  "\<exists>n results sts.
      process_files ws k files c st = Inr (n, results, sts ! length files)
    \<and> length results = length files
    \<and> length sts = Suc (length files)
    \<and> sts ! 0 = st
    \<and> (\<forall>i < length files.
          render_single_file (ws (k + i)) (f_filepath (files ! i)) (sts ! i)
            = Inr (results ! i, sts ! Suc i))
    \<and> n = c + length (filter (\<lambda>r. r \<noteq> None) results)"
proof (induction files arbitrary: k c st)
  case Nil
  have "process_files ws k [] c st = Inr (c, [], [st] ! length ([] :: stl_file list))"
    by simp
  then show ?case by (intro exI [of _ c] exI [of _ "[]"] exI [of _ "[st]"]) simp
next
  case (Cons f files)
  obtain r st1 where r: "render_single_file (ws k) (f_filepath f) st = Inr (r, st1)"
    using render_single_file_returns by blast
  let ?c = "if r \<noteq> None then c + 1 else c"
  from Cons.IH [of "Suc k" ?c st1]
  obtain n results sts where
      p: "process_files ws (Suc k) files ?c st1 = Inr (n, results, sts ! length files)"
    and l: "length results = length files" "length sts = Suc (length files)"
    and z: "sts ! 0 = st1"
    and t: "\<forall>i < length files.
              render_single_file (ws (Suc k + i)) (f_filepath (files ! i)) (sts ! i)
                = Inr (results ! i, sts ! Suc i)"
    and n: "n = ?c + length (filter (\<lambda>r. r \<noteq> None) results)"
    by blast
  have run: "process_files ws k (f # files) c st
               = Inr (n, r # results, (st # sts) ! length (f # files))"
    using r p by simp
  have steps: "\<forall>i < length (f # files).
          render_single_file (ws (k + i)) (f_filepath ((f # files) ! i)) ((st # sts) ! i)
            = Inr ((r # results) ! i, (st # sts) ! Suc i)"
  proof (intro allI impI)
    fix i assume i: "i < length (f # files)"
    show "render_single_file (ws (k + i)) (f_filepath ((f # files) ! i)) ((st # sts) ! i)
            = Inr ((r # results) ! i, (st # sts) ! Suc i)"
    proof (cases i)
      case 0
      with r z show ?thesis by simp
    next
      case (Suc j)
      with i have "j < length files" by simp
      with t have "render_single_file (ws (Suc k + j)) (f_filepath (files ! j)) (sts ! j)
                = Inr (results ! j, sts ! Suc j)" by blast
      with Suc show ?thesis by simp
    qed
  qed
  have cnt: "n = c + length (filter (\<lambda>r. r \<noteq> None) (r # results))"
    using n by (cases r) simp_all
  show ?case
    using run l z steps cnt
    by (intro exI [of _ n] exI [of _ "r # results"] exI [of _ "st # sts"]) simp
qed

lemma try_failure_recorded:
  "(\<forall>e job st1. render_single_file_try w p st = Inl (e, job, st1) \<longrightarrow>
         (\<exists>db'. render_single_file w p st = Inr (None, st1\<lparr>st_db := db'\<rparr>)
             \<and> stl_files db' = stl_files (st_db st1)
             \<and> (\<forall>job_id. job = Some job_id \<longrightarrow>
                   (\<exists>row \<in> set (render_jobs db'). j_id row = job_id)
                 \<and> (\<forall>row \<in> set (render_jobs db'). j_id row = job_id \<longrightarrow>
                       j_status row = ''failed''
                     \<and> j_error_message row = Some (str_of_error e)))))"
proof (intro allI impI)
  fix e job st1
  assume t: "render_single_file_try w p st = Inl (e, job, st1)"
  show "\<exists>db'. render_single_file w p st = Inr (None, st1\<lparr>st_db := db'\<rparr>)
             \<and> stl_files db' = stl_files (st_db st1)
             \<and> (\<forall>job_id. job = Some job_id \<longrightarrow>
                   (\<exists>row \<in> set (render_jobs db'). j_id row = job_id)
                 \<and> (\<forall>row \<in> set (render_jobs db'). j_id row = job_id \<longrightarrow>
                       j_status row = ''failed''
                     \<and> j_error_message row = Some (str_of_error e)))"
  proof (cases job)
    case None
    with t have "render_single_file w p st = Inr (None, st1\<lparr>st_db := st_db st1\<rparr>)"
      by (simp add: render_single_file_def)
    with None show ?thesis by blast
  next
    case (Some job_id)
    obtain db' where u: "update_render_job (w_time_failed w) job_id ''failed'' None None
                        (Some (str_of_error e)) (st_db st1) = Inr db'"
      using update_render_job_returns by blast
    with t Some have r: "render_single_file w p st = Inr (None, st1\<lparr>st_db := db'\<rparr>)"
      by (simp add: render_single_file_def)
    from t Some have "job_id \<in> j_id ` set (render_jobs (st_db st1))"
      by (auto dest: try_failure_job_exists)
    then have "job_id \<in> set (map j_id (render_jobs db'))"
      using update_render_job_job_ids [OF u] by simp
    then have ex: "\<exists>row \<in> set (render_jobs db'). j_id row = job_id" by auto
    have rows: "\<forall>row \<in> set (render_jobs db'). j_id row = job_id \<longrightarrow>
                  j_status row = ''failed'' \<and> j_error_message row = Some (str_of_error e)"
      by (rule update_render_job_failed_rows(2) [OF u])
    have files: "stl_files db' = stl_files (st_db st1)"
      by (rule update_render_job_failed_rows(1) [OF u])
    show ?thesis
    proof (intro exI [of _ db'] conjI allI impI)
      show "render_single_file w p st = Inr (None, st1\<lparr>st_db := db'\<rparr>)" by (rule r)
      show "stl_files db' = stl_files (st_db st1)" by (rule files)
    next
      fix j assume "job = Some j"
      with Some have "j = job_id" by simp
      with ex show "\<exists>row \<in> set (render_jobs db'). j_id row = j" by simp
    next
      fix j assume "job = Some j"
      with Some have "j = job_id" by simp
      with rows show "\<forall>row \<in> set (render_jobs db'). j_id row = j \<longrightarrow>
                  j_status row = ''failed'' \<and> j_error_message row = Some (str_of_error e)"
        by simp
    qed
  qed
qed

lemma stage_failures_reach_handler:
  "(\<forall>oc bc fid db1 job_id db2 script fs1.
         get_color_palette (w_rnd w) (w_object_color w) = (oc, bc)
       \<and> add_stl_file (w_time_register w) (st_fs st) p (st_db st) = Inr (fid, db1)
       \<and> create_render_job fid oc bc db1 = (job_id, db2)
       \<and> script = generate_blender_script p
                    (path_join (RENDERS_DIR (w_base_dir w)) (path_stem p)) oc bc
       \<and> fs1 = write_file (path_join (w_base_dir w) ''temp_render_script.py'')
                  (w_script_text w script) (st_fs st)
       \<longrightarrow>
         (\<forall>e. w_blender w script fs1 = Inl e \<longrightarrow>
            render_single_file_try w p st = Inl (e, Some job_id, \<lparr>st_db = db2, st_fs = fs1\<rparr>))
       \<and> (\<forall>rc err fs2. w_blender w script fs1 = Inr (rc, err, fs2) \<and> rc \<noteq> 0 \<longrightarrow>
            render_single_file_try w p st
              = Inl (RuntimeError (''Blender render failed: '' @ err), Some job_id,
                     \<lparr>st_db = db2, st_fs = fs2\<rparr>))
       \<and> (\<forall>err fs2 e.
              w_blender w script fs1 = Inr (0, err, fs2)
            \<and> create_video_from_frames (w_ffmpeg w) FPS
                 (path_join (RENDERS_DIR (w_base_dir w)) (path_stem p))
                 (path_join (OUTPUT_DIR (w_base_dir w)) (path_stem p @ ''_temp.mp4''))
                 VIDEO_WIDTH VIDEO_HEIGHT 18 ''medium'' fs2 = Inl e
            \<longrightarrow> render_single_file_try w p st
                  = Inl (e, Some job_id, \<lparr>st_db = db2, st_fs = fs2\<rparr>))
       \<and> (\<forall>err fs2 created fs3 e.
              w_blender w script fs1 = Inr (0, err, fs2)
            \<and> create_video_from_frames (w_ffmpeg w) FPS
                 (path_join (RENDERS_DIR (w_base_dir w)) (path_stem p))
                 (path_join (OUTPUT_DIR (w_base_dir w)) (path_stem p @ ''_temp.mp4''))
                 VIDEO_WIDTH VIDEO_HEIGHT 18 ''medium'' fs2 = Inr (created, fs3)
            \<and> add_random_audio (w_ffmpeg w) (w_audio_choice w)
                 (path_join (OUTPUT_DIR (w_base_dir w)) (path_stem p @ ''_temp.mp4''))
                 (path_join (OUTPUT_DIR (w_base_dir w)) (path_stem p @ ''.mp4''))
                 (AUDIO_DIR (w_base_dir w)) fs3 = Inl e
            \<longrightarrow> render_single_file_try w p st
                  = Inl (e, Some job_id, \<lparr>st_db = db2, st_fs = fs3\<rparr>)))"
proof (intro allI impI, elim conjE)
  fix oc bc fid db1 job_id db2 script fs1
  assume pal: "get_color_palette (w_rnd w) (w_object_color w) = (oc, bc)"
    and add: "add_stl_file (w_time_register w) (st_fs st) p (st_db st) = Inr (fid, db1)"
    and job: "create_render_job fid oc bc db1 = (job_id, db2)"
    and script: "script = generate_blender_script p
                    (path_join (RENDERS_DIR (w_base_dir w)) (path_stem p)) oc bc"
    and fs1: "fs1 = write_file (path_join (w_base_dir w) ''temp_render_script.py'')
                  (w_script_text w script) (st_fs st)"
  note tr = try_after_setup [OF pal add job]
  from fs1 have fs1': "fs1 = write_file (path_join (w_base_dir w) ''temp_render_script.py'')
                  (w_script_text w script) (st_fs (st\<lparr>st_db := db2\<rparr>))"
    by simp
  show "(\<forall>e. w_blender w script fs1 = Inl e \<longrightarrow>
            render_single_file_try w p st = Inl (e, Some job_id, \<lparr>st_db = db2, st_fs = fs1\<rparr>))
       \<and> (\<forall>rc err fs2. w_blender w script fs1 = Inr (rc, err, fs2) \<and> rc \<noteq> 0 \<longrightarrow>
            render_single_file_try w p st
              = Inl (RuntimeError (''Blender render failed: '' @ err), Some job_id,
                     \<lparr>st_db = db2, st_fs = fs2\<rparr>))
       \<and> (\<forall>err fs2 e.
              w_blender w script fs1 = Inr (0, err, fs2)
            \<and> create_video_from_frames (w_ffmpeg w) FPS
                 (path_join (RENDERS_DIR (w_base_dir w)) (path_stem p))
                 (path_join (OUTPUT_DIR (w_base_dir w)) (path_stem p @ ''_temp.mp4''))
                 VIDEO_WIDTH VIDEO_HEIGHT 18 ''medium'' fs2 = Inl e
            \<longrightarrow> render_single_file_try w p st
                  = Inl (e, Some job_id, \<lparr>st_db = db2, st_fs = fs2\<rparr>))
       \<and> (\<forall>err fs2 created fs3 e.
              w_blender w script fs1 = Inr (0, err, fs2)
            \<and> create_video_from_frames (w_ffmpeg w) FPS
                 (path_join (RENDERS_DIR (w_base_dir w)) (path_stem p))
                 (path_join (OUTPUT_DIR (w_base_dir w)) (path_stem p @ ''_temp.mp4''))
                 VIDEO_WIDTH VIDEO_HEIGHT 18 ''medium'' fs2 = Inr (created, fs3)
            \<and> add_random_audio (w_ffmpeg w) (w_audio_choice w)
                 (path_join (OUTPUT_DIR (w_base_dir w)) (path_stem p @ ''_temp.mp4''))
                 (path_join (OUTPUT_DIR (w_base_dir w)) (path_stem p @ ''.mp4''))
                 (AUDIO_DIR (w_base_dir w)) fs3 = Inl e
            \<longrightarrow> render_single_file_try w p st
                  = Inl (e, Some job_id, \<lparr>st_db = db2, st_fs = fs3\<rparr>))"
  proof (intro conjI allI impI; (elim conjE)?)
    fix e assume "w_blender w script fs1 = Inl e"
    from stage_blender_raises [OF script fs1' this]
    show "render_single_file_try w p st = Inl (e, Some job_id, \<lparr>st_db = db2, st_fs = fs1\<rparr>)"
      by (simp add: tr)
  next
    fix rc err fs2 assume "w_blender w script fs1 = Inr (rc, err, fs2)" "rc \<noteq> 0"
    from stage_blender_exit_code [OF script fs1' this]
    show "render_single_file_try w p st
              = Inl (RuntimeError (''Blender render failed: '' @ err), Some job_id,
                     \<lparr>st_db = db2, st_fs = fs2\<rparr>)"
      by (simp add: tr)
  next
    fix err fs2 e
    assume "w_blender w script fs1 = Inr (0, err, fs2)"
      "create_video_from_frames (w_ffmpeg w) FPS
                 (path_join (RENDERS_DIR (w_base_dir w)) (path_stem p))
                 (path_join (OUTPUT_DIR (w_base_dir w)) (path_stem p @ ''_temp.mp4''))
                 VIDEO_WIDTH VIDEO_HEIGHT 18 ''medium'' fs2 = Inl e"
    from stage_compositing_fails [OF script fs1' this]
    show "render_single_file_try w p st = Inl (e, Some job_id, \<lparr>st_db = db2, st_fs = fs2\<rparr>)"
      by (simp add: tr)
  next
    fix err fs2 created fs3 e
    assume "w_blender w script fs1 = Inr (0, err, fs2)"
      "create_video_from_frames (w_ffmpeg w) FPS
                 (path_join (RENDERS_DIR (w_base_dir w)) (path_stem p))
                 (path_join (OUTPUT_DIR (w_base_dir w)) (path_stem p @ ''_temp.mp4''))
                 VIDEO_WIDTH VIDEO_HEIGHT 18 ''medium'' fs2 = Inr (created, fs3)"
      "add_random_audio (w_ffmpeg w) (w_audio_choice w)
                 (path_join (OUTPUT_DIR (w_base_dir w)) (path_stem p @ ''_temp.mp4''))
                 (path_join (OUTPUT_DIR (w_base_dir w)) (path_stem p @ ''.mp4''))
                 (AUDIO_DIR (w_base_dir w)) fs3 = Inl e"
    from stage_audio_fails [OF script fs1' this]
    show "render_single_file_try w p st = Inl (e, Some job_id, \<lparr>st_db = db2, st_fs = fs3\<rparr>)"
      by (simp add: tr)
  qed
qed

lemma process_queue_trace:
  "(\<exists>n results sts.
         process_queue ws limit st
           = Inr (n, results, sts ! length (get_pending_files limit (st_db st)))
       \<and> length results = length (get_pending_files limit (st_db st))
       \<and> length sts = Suc (length (get_pending_files limit (st_db st)))
       \<and> sts ! 0 = st
       \<and> (\<forall>k < length (get_pending_files limit (st_db st)).
             render_single_file (ws k) (f_filepath (get_pending_files limit (st_db st) ! k))
               (sts ! k) = Inr (results ! k, sts ! Suc k))
       \<and> n = length (filter (\<lambda>r. r \<noteq> None) results))"
proof -
  have "process_queue ws limit st
          = process_files ws 0 (get_pending_files limit (st_db st)) 0 st"
    by (simp add: process_queue_def Let_def)
  with process_files_trace [of ws 0 "get_pending_files limit (st_db st)" 0 st]
  show ?thesis by simp
qed

text \<open>
  Claim C8. (1) \<open>render_single_file\<close> never lets an exception out: it returns a path or
  \<open>None\<close>. (2) When its \<open>try\<close> block fails, it returns \<open>None\<close>, leaves the file table as the
  failure found it and, if the job had been created, that job's row exists and is stored as
  \<open>failed\<close> with the text of the exception as error message. (3) Once the file is registered
  and the job created, each lifecycle stage fails the \<open>try\<close> block with its own error: a
  Blender run that raises (the timeout), a Blender run that exits with a code other than 0
  (the message is \<open>Blender render failed:\<close> and the standard error text), a failed
  frames-to-video run, a failed audio step. (4) \<open>process_queue\<close> never fails and runs
  \<open>render_single_file\<close> on every pending file it selected, in order, each from the state the
  previous call left, whatever the earlier calls returned; the list of results holds each
  call's result and the count is the number of calls that returned a path.
\<close>

theorem pipeline_failure_isolation:
  "(\<exists>r st'. render_single_file w p st = Inr (r, st'))
   \<and> (\<forall>e job st1. render_single_file_try w p st = Inl (e, job, st1) \<longrightarrow>
         (\<exists>db'. render_single_file w p st = Inr (None, st1\<lparr>st_db := db'\<rparr>)
             \<and> stl_files db' = stl_files (st_db st1)
             \<and> (\<forall>job_id. job = Some job_id \<longrightarrow>
                   (\<exists>row \<in> set (render_jobs db'). j_id row = job_id)
                 \<and> (\<forall>row \<in> set (render_jobs db'). j_id row = job_id \<longrightarrow>
                       j_status row = ''failed''
                     \<and> j_error_message row = Some (str_of_error e)))))
   \<and> (\<forall>oc bc fid db1 job_id db2 script fs1.
         get_color_palette (w_rnd w) (w_object_color w) = (oc, bc)
       \<and> add_stl_file (w_time_register w) (st_fs st) p (st_db st) = Inr (fid, db1)
       \<and> create_render_job fid oc bc db1 = (job_id, db2)
       \<and> script = generate_blender_script p
                    (path_join (RENDERS_DIR (w_base_dir w)) (path_stem p)) oc bc
       \<and> fs1 = write_file (path_join (w_base_dir w) ''temp_render_script.py'')
                  (w_script_text w script) (st_fs st)
       \<longrightarrow>
         (\<forall>e. w_blender w script fs1 = Inl e \<longrightarrow>
            render_single_file_try w p st = Inl (e, Some job_id, \<lparr>st_db = db2, st_fs = fs1\<rparr>))
       \<and> (\<forall>rc err fs2. w_blender w script fs1 = Inr (rc, err, fs2) \<and> rc \<noteq> 0 \<longrightarrow>
            render_single_file_try w p st
              = Inl (RuntimeError (''Blender render failed: '' @ err), Some job_id,
                     \<lparr>st_db = db2, st_fs = fs2\<rparr>))
       \<and> (\<forall>err fs2 e.
              w_blender w script fs1 = Inr (0, err, fs2)
            \<and> create_video_from_frames (w_ffmpeg w) FPS
                 (path_join (RENDERS_DIR (w_base_dir w)) (path_stem p))
                 (path_join (OUTPUT_DIR (w_base_dir w)) (path_stem p @ ''_temp.mp4''))
                 VIDEO_WIDTH VIDEO_HEIGHT 18 ''medium'' fs2 = Inl e
            \<longrightarrow> render_single_file_try w p st
                  = Inl (e, Some job_id, \<lparr>st_db = db2, st_fs = fs2\<rparr>))
       \<and> (\<forall>err fs2 created fs3 e.
              w_blender w script fs1 = Inr (0, err, fs2)
            \<and> create_video_from_frames (w_ffmpeg w) FPS
                 (path_join (RENDERS_DIR (w_base_dir w)) (path_stem p))
                 (path_join (OUTPUT_DIR (w_base_dir w)) (path_stem p @ ''_temp.mp4''))
                 VIDEO_WIDTH VIDEO_HEIGHT 18 ''medium'' fs2 = Inr (created, fs3)
            \<and> add_random_audio (w_ffmpeg w) (w_audio_choice w)
                 (path_join (OUTPUT_DIR (w_base_dir w)) (path_stem p @ ''_temp.mp4''))
                 (path_join (OUTPUT_DIR (w_base_dir w)) (path_stem p @ ''.mp4''))
                 (AUDIO_DIR (w_base_dir w)) fs3 = Inl e
            \<longrightarrow> render_single_file_try w p st
                  = Inl (e, Some job_id, \<lparr>st_db = db2, st_fs = fs3\<rparr>)))
   \<and> (\<exists>n results sts.
         process_queue ws limit st
           = Inr (n, results, sts ! length (get_pending_files limit (st_db st)))
       \<and> length results = length (get_pending_files limit (st_db st))
       \<and> length sts = Suc (length (get_pending_files limit (st_db st)))
       \<and> sts ! 0 = st
       \<and> (\<forall>k < length (get_pending_files limit (st_db st)).
             render_single_file (ws k) (f_filepath (get_pending_files limit (st_db st) ! k))
               (sts ! k) = Inr (results ! k, sts ! Suc k))
       \<and> n = length (filter (\<lambda>r. r \<noteq> None) results))"
  by (intro conjI render_single_file_returns try_failure_recorded stage_failures_reach_handler
      process_queue_trace)

text \<open>
  The four stage failures on the example store, each leaving job 2 stored as failed with the
  stage's message, and a batch of two files whose first Blender run fails: the second file
  is still rendered, from the state the failed call left.
\<close>

theorem pipeline_failure_isolation_witness:
  "(\<exists>st' row. render_single_file world_blender_timeout ''/m/a.stl'' pstate0 = Inr (None, st')
    \<and> row \<in> set (render_jobs (st_db st')) \<and> j_id row = 2
    \<and> j_status row = ''failed''
    \<and> j_error_message row = Some ''Command '['blender', '--background', '--python', '/app/temp_render_script.py']' timed out after 3600 seconds'')
   \<and> (\<exists>st' row. render_single_file world_blender_fails ''/m/a.stl'' pstate0 = Inr (None, st')
    \<and> row \<in> set (render_jobs (st_db st')) \<and> j_id row = 2
    \<and> j_status row = ''failed''
    \<and> j_error_message row = Some ''Blender render failed: boom'')
   \<and> (\<exists>st' row. render_single_file world_ffmpeg_fails ''/m/a.stl'' pstate0 = Inr (None, st')
    \<and> row \<in> set (render_jobs (st_db st')) \<and> j_id row = 2
    \<and> j_status row = ''failed''
    \<and> j_error_message row = Some ''ffmpeg error (see stderr output for detail)'')
   \<and> (\<exists>st' row. render_single_file world_mux_fails ''/m/a.stl'' pstate_audio = Inr (None, st')
    \<and> row \<in> set (render_jobs (st_db st')) \<and> j_id row = 2
    \<and> j_status row = ''failed''
    \<and> j_error_message row = Some ''ffmpeg error (see stderr output for detail)'')
   \<and> (\<exists>n sts. process_queue worlds None pstate0 = Inr (n, [None, Some ''/app/data/output_videos/b.mp4''], sts ! 2)
    \<and> n = 1 \<and> sts ! 0 = pstate0
    \<and> render_single_file (worlds 0) ''/m/a.stl'' (sts ! 0) = Inr (None, sts ! 1)
    \<and> render_single_file (worlds 1) ''/m/b.stl'' (sts ! 1) = Inr (Some ''/app/data/output_videos/b.mp4'', sts ! 2))"
proof -
  have timeout: "(\<exists>st' row. render_single_file world_blender_timeout ''/m/a.stl'' pstate0 = Inr (None, st')
      \<and> row \<in> set (render_jobs (st_db st')) \<and> j_id row = 2
      \<and> j_status row = ''failed''
      \<and> j_error_message row = Some ''Command '['blender', '--background', '--python', '/app/temp_render_script.py']' timed out after 3600 seconds'')"
  proof -
    obtain oc bc where pal: "get_color_palette (w_rnd world_blender_timeout) (w_object_color world_blender_timeout) = (oc, bc)"
      by (cases "get_color_palette (w_rnd world_blender_timeout) (w_object_color world_blender_timeout)")
    have "\<exists>db1 db2.
            add_stl_file (w_time_register world_blender_timeout) (st_fs pstate0) ''/m/a.stl'' (st_db pstate0) = Inr (Some 1, db1)
          \<and> create_render_job (Some 1) oc bc db1 = (2, db2)"
      by (simp add: add_stl_file_def stat_st_size_def insert_or_ignore_stl_file_def new_rowid_def
          create_render_job_def Let_def path_name_def example_defs more_example_defs)
    then obtain db1 db2 where
        add: "add_stl_file (w_time_register world_blender_timeout) (st_fs pstate0) ''/m/a.stl'' (st_db pstate0) = Inr (Some 1, db1)"
      and job: "create_render_job (Some 1) oc bc db1 = (2, db2)"
      by blast
    define script where "script = generate_blender_script ''/m/a.stl''
        (path_join (RENDERS_DIR (w_base_dir world_blender_timeout)) (path_stem ''/m/a.stl'')) oc bc"
    define fs1 where "fs1 = write_file (path_join (w_base_dir world_blender_timeout) ''temp_render_script.py'')
        (w_script_text world_blender_timeout script) (st_fs pstate0)"
    note stages = pipeline_failure_isolation [of world_blender_timeout "''/m/a.stl''" pstate0 worlds None,
        THEN conjunct2, THEN conjunct2, THEN conjunct1, rule_format,
        OF conjI [OF pal conjI [OF add conjI [OF job conjI [OF script_def fs1_def]]]]]
    have b: "w_blender world_blender_timeout script fs1 = Inl (TimeoutExpired ''Command '['blender', '--background', '--python', '/app/temp_render_script.py']' timed out after 3600 seconds'')"
      by (simp add: more_example_defs example_defs)
    note t = stages [THEN conjunct1, rule_format, OF b]
    note rec = pipeline_failure_isolation [of world_blender_timeout "''/m/a.stl''" pstate0 worlds None,
        THEN conjunct2, THEN conjunct1, rule_format, OF t]
    from rec obtain db' where
        r: "render_single_file world_blender_timeout ''/m/a.stl'' pstate0 = Inr (None, \<lparr>st_db = db2, st_fs = fs1\<rparr>\<lparr>st_db := db'\<rparr>)"
      and j: "\<forall>job_id. Some 2 = Some job_id \<longrightarrow>
                (\<exists>row \<in> set (render_jobs db'). j_id row = job_id)
              \<and> (\<forall>row \<in> set (render_jobs db'). j_id row = job_id \<longrightarrow>
                    j_status row = ''failed''
                  \<and> j_error_message row = Some (str_of_error (TimeoutExpired ''Command '['blender', '--background', '--python', '/app/temp_render_script.py']' timed out after 3600 seconds'')))"
      by blast
    from j obtain row where row: "row \<in> set (render_jobs db')" "j_id row = 2"
        "j_status row = ''failed''"
        "j_error_message row = Some (str_of_error (TimeoutExpired ''Command '['blender', '--background', '--python', '/app/temp_render_script.py']' timed out after 3600 seconds''))"
      by blast
    from row(4) have "j_error_message row = Some ''Command '['blender', '--background', '--python', '/app/temp_render_script.py']' timed out after 3600 seconds''" by simp
    with r row(1-3) show ?thesis by auto
  qed
  have exit_code: "(\<exists>st' row. render_single_file world_blender_fails ''/m/a.stl'' pstate0 = Inr (None, st')
      \<and> row \<in> set (render_jobs (st_db st')) \<and> j_id row = 2
      \<and> j_status row = ''failed''
      \<and> j_error_message row = Some ''Blender render failed: boom'')"
  proof -
    obtain oc bc where pal: "get_color_palette (w_rnd world_blender_fails) (w_object_color world_blender_fails) = (oc, bc)"
      by (cases "get_color_palette (w_rnd world_blender_fails) (w_object_color world_blender_fails)")
    have "\<exists>db1 db2.
            add_stl_file (w_time_register world_blender_fails) (st_fs pstate0) ''/m/a.stl'' (st_db pstate0) = Inr (Some 1, db1)
          \<and> create_render_job (Some 1) oc bc db1 = (2, db2)"
      by (simp add: add_stl_file_def stat_st_size_def insert_or_ignore_stl_file_def new_rowid_def
          create_render_job_def Let_def path_name_def example_defs more_example_defs)
    then obtain db1 db2 where
        add: "add_stl_file (w_time_register world_blender_fails) (st_fs pstate0) ''/m/a.stl'' (st_db pstate0) = Inr (Some 1, db1)"
      and job: "create_render_job (Some 1) oc bc db1 = (2, db2)"
      by blast
    define script where "script = generate_blender_script ''/m/a.stl''
        (path_join (RENDERS_DIR (w_base_dir world_blender_fails)) (path_stem ''/m/a.stl'')) oc bc"
    define fs1 where "fs1 = write_file (path_join (w_base_dir world_blender_fails) ''temp_render_script.py'')
        (w_script_text world_blender_fails script) (st_fs pstate0)"
    note stages = pipeline_failure_isolation [of world_blender_fails "''/m/a.stl''" pstate0 worlds None,
        THEN conjunct2, THEN conjunct2, THEN conjunct1, rule_format,
        OF conjI [OF pal conjI [OF add conjI [OF job conjI [OF script_def fs1_def]]]]]
    have b: "w_blender world_blender_fails script fs1 = Inr (1, ''boom'', fs1) \<and> (1::int) \<noteq> 0"
      by (simp add: more_example_defs example_defs)
    note t = stages [THEN conjunct2, THEN conjunct1, rule_format, OF b]
    note rec = pipeline_failure_isolation [of world_blender_fails "''/m/a.stl''" pstate0 worlds None,
        THEN conjunct2, THEN conjunct1, rule_format, OF t]
    from rec obtain db' where
        r: "render_single_file world_blender_fails ''/m/a.stl'' pstate0 = Inr (None, \<lparr>st_db = db2, st_fs = fs1\<rparr>\<lparr>st_db := db'\<rparr>)"
      and j: "\<forall>job_id. Some 2 = Some job_id \<longrightarrow>
                (\<exists>row \<in> set (render_jobs db'). j_id row = job_id)
              \<and> (\<forall>row \<in> set (render_jobs db'). j_id row = job_id \<longrightarrow>
                    j_status row = ''failed''
                  \<and> j_error_message row = Some (str_of_error (RuntimeError (''Blender render failed: '' @ ''boom''))))"
      by blast
    from j obtain row where row: "row \<in> set (render_jobs db')" "j_id row = 2"
        "j_status row = ''failed''"
        "j_error_message row = Some (str_of_error (RuntimeError (''Blender render failed: '' @ ''boom'')))"
      by blast
    from row(4) have "j_error_message row = Some ''Blender render failed: boom''" by simp
    with r row(1-3) show ?thesis by auto
  qed
  have compositing: "(\<exists>st' row. render_single_file world_ffmpeg_fails ''/m/a.stl'' pstate0 = Inr (None, st')
      \<and> row \<in> set (render_jobs (st_db st')) \<and> j_id row = 2
      \<and> j_status row = ''failed''
      \<and> j_error_message row = Some ''ffmpeg error (see stderr output for detail)'')"
  proof -
    obtain oc bc where pal: "get_color_palette (w_rnd world_ffmpeg_fails) (w_object_color world_ffmpeg_fails) = (oc, bc)"
      by (cases "get_color_palette (w_rnd world_ffmpeg_fails) (w_object_color world_ffmpeg_fails)")
    have "\<exists>db1 db2.
            add_stl_file (w_time_register world_ffmpeg_fails) (st_fs pstate0) ''/m/a.stl'' (st_db pstate0) = Inr (Some 1, db1)
          \<and> create_render_job (Some 1) oc bc db1 = (2, db2)"
      by (simp add: add_stl_file_def stat_st_size_def insert_or_ignore_stl_file_def new_rowid_def
          create_render_job_def Let_def path_name_def example_defs more_example_defs)
    then obtain db1 db2 where
        add: "add_stl_file (w_time_register world_ffmpeg_fails) (st_fs pstate0) ''/m/a.stl'' (st_db pstate0) = Inr (Some 1, db1)"
      and job: "create_render_job (Some 1) oc bc db1 = (2, db2)"
      by blast
    define script where "script = generate_blender_script ''/m/a.stl''
        (path_join (RENDERS_DIR (w_base_dir world_ffmpeg_fails)) (path_stem ''/m/a.stl'')) oc bc"
    define fs1 where "fs1 = write_file (path_join (w_base_dir world_ffmpeg_fails) ''temp_render_script.py'')
        (w_script_text world_ffmpeg_fails script) (st_fs pstate0)"
    note stages = pipeline_failure_isolation [of world_ffmpeg_fails "''/m/a.stl''" pstate0 worlds None,
        THEN conjunct2, THEN conjunct2, THEN conjunct1, rule_format,
        OF conjI [OF pal conjI [OF add conjI [OF job conjI [OF script_def fs1_def]]]]]
    have b: "w_blender world_ffmpeg_fails script fs1 = Inr (0, [], fs1)"
      by (simp add: more_example_defs example_defs)
    have c: "create_video_from_frames (w_ffmpeg world_ffmpeg_fails) FPS
          (path_join (RENDERS_DIR (w_base_dir world_ffmpeg_fails)) (path_stem ''/m/a.stl''))
          (path_join (OUTPUT_DIR (w_base_dir world_ffmpeg_fails)) (path_stem ''/m/a.stl'' @ ''_temp.mp4''))
          VIDEO_WIDTH VIDEO_HEIGHT 18 ''medium'' fs1
          = Inl (FfmpegError ''ffmpeg error (see stderr output for detail)'')"
      by (simp add: create_video_from_frames_def more_example_defs example_defs ffmpeg_fails_def)
    note t = stages [THEN conjunct2, THEN conjunct2, THEN conjunct1, rule_format,
        OF conjI [OF b c]]
    note rec = pipeline_failure_isolation [of world_ffmpeg_fails "''/m/a.stl''" pstate0 worlds None,
        THEN conjunct2, THEN conjunct1, rule_format, OF t]
    from rec obtain db' where
        r: "render_single_file world_ffmpeg_fails ''/m/a.stl'' pstate0 = Inr (None, \<lparr>st_db = db2, st_fs = fs1\<rparr>\<lparr>st_db := db'\<rparr>)"
      and j: "\<forall>job_id. Some 2 = Some job_id \<longrightarrow>
                (\<exists>row \<in> set (render_jobs db'). j_id row = job_id)
              \<and> (\<forall>row \<in> set (render_jobs db'). j_id row = job_id \<longrightarrow>
                    j_status row = ''failed''
                  \<and> j_error_message row = Some (str_of_error (FfmpegError ''ffmpeg error (see stderr output for detail)'')))"
      by blast
    from j obtain row where row: "row \<in> set (render_jobs db')" "j_id row = 2"
        "j_status row = ''failed''"
        "j_error_message row = Some (str_of_error (FfmpegError ''ffmpeg error (see stderr output for detail)''))"
      by blast
    from row(4) have "j_error_message row = Some ''ffmpeg error (see stderr output for detail)''" by simp
    with r row(1-3) show ?thesis by auto
  qed
  have muxing: "(\<exists>st' row. render_single_file world_mux_fails ''/m/a.stl'' pstate_audio = Inr (None, st')
      \<and> row \<in> set (render_jobs (st_db st')) \<and> j_id row = 2
      \<and> j_status row = ''failed''
      \<and> j_error_message row = Some ''ffmpeg error (see stderr output for detail)'')"
  proof -
    obtain oc bc where pal: "get_color_palette (w_rnd world_mux_fails) (w_object_color world_mux_fails) = (oc, bc)"
      by (cases "get_color_palette (w_rnd world_mux_fails) (w_object_color world_mux_fails)")
    have "\<exists>db1 db2.
            add_stl_file (w_time_register world_mux_fails) (st_fs pstate_audio) ''/m/a.stl'' (st_db pstate_audio) = Inr (Some 1, db1)
          \<and> create_render_job (Some 1) oc bc db1 = (2, db2)"
      by (simp add: add_stl_file_def stat_st_size_def insert_or_ignore_stl_file_def new_rowid_def
          create_render_job_def Let_def path_name_def example_defs more_example_defs)
    then obtain db1 db2 where
        add: "add_stl_file (w_time_register world_mux_fails) (st_fs pstate_audio) ''/m/a.stl'' (st_db pstate_audio) = Inr (Some 1, db1)"
      and job: "create_render_job (Some 1) oc bc db1 = (2, db2)"
      by blast
    define script where "script = generate_blender_script ''/m/a.stl''
        (path_join (RENDERS_DIR (w_base_dir world_mux_fails)) (path_stem ''/m/a.stl'')) oc bc"
    define fs1 where "fs1 = write_file (path_join (w_base_dir world_mux_fails) ''temp_render_script.py'')
        (w_script_text world_mux_fails script) (st_fs pstate_audio)"
    note stages = pipeline_failure_isolation [of world_mux_fails "''/m/a.stl''" pstate_audio worlds None,
        THEN conjunct2, THEN conjunct2, THEN conjunct1, rule_format,
        OF conjI [OF pal conjI [OF add conjI [OF job conjI [OF script_def fs1_def]]]]]
    have b: "w_blender world_mux_fails script fs1 = Inr (0, [], fs1)"
      by (simp add: more_example_defs example_defs)
    have c: "create_video_from_frames (w_ffmpeg world_mux_fails) FPS
          (path_join (RENDERS_DIR (w_base_dir world_mux_fails)) (path_stem ''/m/a.stl''))
          (path_join (OUTPUT_DIR (w_base_dir world_mux_fails)) (path_stem ''/m/a.stl'' @ ''_temp.mp4''))
          VIDEO_WIDTH VIDEO_HEIGHT 18 ''medium'' fs1
          = Inr ((path_join (OUTPUT_DIR (w_base_dir world_mux_fails)) (path_stem ''/m/a.stl'' @ ''_temp.mp4'')), (write_file (path_join (OUTPUT_DIR (w_base_dir world_mux_fails)) (path_stem ''/m/a.stl'' @ ''_temp.mp4'')) ''silent video'' fs1))"
      by (simp add: create_video_from_frames_def more_example_defs example_defs)
    have a: "add_random_audio (w_ffmpeg world_mux_fails) (w_audio_choice world_mux_fails)
          (path_join (OUTPUT_DIR (w_base_dir world_mux_fails)) (path_stem ''/m/a.stl'' @ ''_temp.mp4''))
          (path_join (OUTPUT_DIR (w_base_dir world_mux_fails)) (path_stem ''/m/a.stl'' @ ''.mp4''))
          (AUDIO_DIR (w_base_dir world_mux_fails)) (write_file (path_join (OUTPUT_DIR (w_base_dir world_mux_fails)) (path_stem ''/m/a.stl'' @ ''_temp.mp4'')) ''silent video'' fs1)
          = Inl (FfmpegError ''ffmpeg error (see stderr output for detail)'')"
      by (simp add: fs1_def pipeline_defs more_example_defs example_defs)
    note t = stages [THEN conjunct2, THEN conjunct2, THEN conjunct2, rule_format,
        OF conjI [OF b conjI [OF c a]]]
    note rec = pipeline_failure_isolation [of world_mux_fails "''/m/a.stl''" pstate_audio worlds None,
        THEN conjunct2, THEN conjunct1, rule_format, OF t]
    from rec obtain db' where
        r: "render_single_file world_mux_fails ''/m/a.stl'' pstate_audio = Inr (None, \<lparr>st_db = db2, st_fs = (write_file (path_join (OUTPUT_DIR (w_base_dir world_mux_fails)) (path_stem ''/m/a.stl'' @ ''_temp.mp4'')) ''silent video'' fs1)\<rparr>\<lparr>st_db := db'\<rparr>)"
      and j: "\<forall>job_id. Some 2 = Some job_id \<longrightarrow>
                (\<exists>row \<in> set (render_jobs db'). j_id row = job_id)
              \<and> (\<forall>row \<in> set (render_jobs db'). j_id row = job_id \<longrightarrow>
                    j_status row = ''failed''
                  \<and> j_error_message row = Some (str_of_error (FfmpegError ''ffmpeg error (see stderr output for detail)'')))"
      by blast
    from j obtain row where row: "row \<in> set (render_jobs db')" "j_id row = 2"
        "j_status row = ''failed''"
        "j_error_message row = Some (str_of_error (FfmpegError ''ffmpeg error (see stderr output for detail)''))"
      by blast
    from row(4) have "j_error_message row = Some ''ffmpeg error (see stderr output for detail)''" by simp
    with r row(1-3) show ?thesis by auto
  qed
  have batch: "(\<exists>n sts. process_queue worlds None pstate0 = Inr (n, [None, Some ''/app/data/output_videos/b.mp4''], sts ! 2)
      \<and> n = 1 \<and> sts ! 0 = pstate0
      \<and> render_single_file (worlds 0) ''/m/a.stl'' (sts ! 0) = Inr (None, sts ! 1)
      \<and> render_single_file (worlds 1) ''/m/b.stl'' (sts ! 1) = Inr (Some ''/app/data/output_videos/b.mp4'', sts ! 2))"
  proof -
    have pend: "get_pending_files None (st_db pstate0) = [file_a, file_b]"
      by (simp add: get_pending_files_def example_defs)
    have "\<exists>s1. render_single_file world_blender_fails ''/m/a.stl'' pstate0 = Inr (None, s1)
            \<and> (\<exists>s2. render_single_file world_ok ''/m/b.stl'' s1
                       = Inr (Some ''/app/data/output_videos/b.mp4'', s2))"
      by (simp add: pipeline_defs example_defs)
    then obtain s1 s2 where
        ra: "render_single_file world_blender_fails ''/m/a.stl'' pstate0 = Inr (None, s1)"
      and rb: "render_single_file world_ok ''/m/b.stl'' s1
                 = Inr (Some ''/app/data/output_videos/b.mp4'', s2)"
      by blast
    note tr = pipeline_failure_isolation [of world_ok "''/m/a.stl''" pstate0 worlds None,
        THEN conjunct2, THEN conjunct2, THEN conjunct2, unfolded pend]
    from tr obtain n results sts where
        q: "process_queue worlds None pstate0 = Inr (n, results, sts ! length [file_a, file_b])"
      and l: "length results = length [file_a, file_b]"
      and z: "sts ! 0 = pstate0"
      and st: "\<forall>k < length [file_a, file_b].
                 render_single_file (worlds k) (f_filepath ([file_a, file_b] ! k)) (sts ! k)
                   = Inr (results ! k, sts ! Suc k)"
      and n: "n = length (filter (\<lambda>r. r \<noteq> None) results)"
      by blast
    from st have k0: "render_single_file (worlds 0) (f_filepath file_a) (sts ! 0)
                        = Inr (results ! 0, sts ! Suc 0)"
      by auto
    from st have k1: "render_single_file (worlds 1) (f_filepath file_b) (sts ! 1)
                        = Inr (results ! 1, sts ! Suc 1)"
      by auto
    have w0: "worlds 0 = world_blender_fails"
      and w1: "worlds 1 = world_ok" "worlds (Suc 0) = world_ok"
      by (simp_all add: worlds_def)
    have pa: "f_filepath file_a = ''/m/a.stl''" and pb: "f_filepath file_b = ''/m/b.stl''"
      by (simp_all add: file_a_def file_b_def)
    from k0 ra z have r0: "results ! 0 = None" "sts ! 1 = s1"
      by (simp_all add: w0 pa)
    from k1 rb r0(2) have r1: "results ! 1 = Some ''/app/data/output_videos/b.mp4''" "sts ! 2 = s2"
      by (simp_all add: w1 pb numeral_2_eq_2)
    from l have "length results = 2" by simp
    then obtain x y where xy: "results = [x, y]"
      by (metis length_0_conv length_Suc_conv numeral_2_eq_2)
    with r0(1) r1(1) have res: "results = [None, Some ''/app/data/output_videos/b.mp4'']"
      by simp
    from n res have n1: "n = 1" by simp
    from q res have q': "process_queue worlds None pstate0
        = Inr (n, [None, Some ''/app/data/output_videos/b.mp4''], sts ! 2)"
      by (simp add: numeral_2_eq_2)
    from ra z r0(2) have e0: "render_single_file (worlds 0) ''/m/a.stl'' (sts ! 0) = Inr (None, sts ! 1)"
      by (simp add: w0)
    from rb r0(2) r1(2) have e1: "render_single_file (worlds 1) ''/m/b.stl'' (sts ! 1)
        = Inr (Some ''/app/data/output_videos/b.mp4'', sts ! 2)"
      by (simp add: w1)
    from q' n1 z e0 e1 show ?thesis by blast
  qed
  from timeout exit_code compositing muxing batch show ?thesis by (intro conjI)
qed

section \<open>Properties of the palette generator\<close>

lemma py_mod1_unit: "0 \<le> x \<Longrightarrow> x < 1 \<Longrightarrow> py_mod1 x = x"
proof -
  assume "0 \<le> x" "x < 1"
  then have "\<lfloor>x\<rfloor> = 0" by (intro floor_unique) simp_all
  then show ?thesis by (simp add: py_mod1_def)
qed

lemma py_mod1_neg_unit: "- 1 \<le> x \<Longrightarrow> x < 0 \<Longrightarrow> py_mod1 x = x + 1"
proof -
  assume "- 1 \<le> x" "x < 0"
  then have "\<lfloor>x\<rfloor> = - 1" by (intro floor_unique) simp_all
  then show ?thesis by (simp add: py_mod1_def)
qed

lemma py_mod1_range: "0 \<le> py_mod1 x \<and> py_mod1 x < 1"
  unfolding py_mod1_def by linarith

text \<open>rgb_to_hsv once the largest and the smallest channel are known.\<close>

lemma rgb_to_hsv_known:
  assumes "max r (max g b) = maxc" and "min r (min g b) = minc" and "minc \<noteq> maxc"
  shows "rgb_to_hsv (r, g, b) =
           (py_mod1 ((if r = maxc then (maxc - b) / (maxc - minc) - (maxc - g) / (maxc - minc)
                      else if g = maxc
                        then 2 + (maxc - r) / (maxc - minc) - (maxc - b) / (maxc - minc)
                        else 4 + (maxc - g) / (maxc - minc) - (maxc - r) / (maxc - minc)) / 6),
            (maxc - minc) / maxc, maxc)"
  using assms by (simp add: rgb_to_hsv_def Let_def)

text \<open>
  The six sectors of the hue circle. With \<open>S = v * s\<close>, \<open>A = S * f\<close> and \<open>C = S * (1 - f)\<close> the
  three channels \<open>hsv_to_rgb\<close> returns are \<open>v\<close>, \<open>v - S\<close> and one of \<open>v - A\<close>, \<open>v - C\<close>; each
  lemma converts one arrangement back.
\<close>

lemma shift5: "(x - 1) / 6 + 1 = (5 + x) / (6::real)"
  by (simp add: field_simps)

lemma sector0:
  assumes "0 < v" "0 \<le> A" "0 < C" "A + C = S"
  shows "rgb_to_hsv (v, v - C, v - S) = (A / S / 6, S / v, v)"
proof -
  have S: "0 < S" "A < S" using assms by linarith+
  have f: "0 \<le> A / S" "A / S < 1" using S assms by simp_all
  have ne: "v - S \<noteq> v" "v \<noteq> v - S" using S by simp_all
  have sat: "(v - (v - S)) / v = S / v" by simp
  have mx: "max (v) (max (v - C) (v - S)) = v" using assms S by (simp add: max_def)
  have mn: "min (v) (min (v - C) (v - S)) = v - S" using assms S by (simp add: min_def)
  note raw = rgb_to_hsv_known [OF mx mn ne(1)]
  have m: "py_mod1 (A / S / 6) = A / S / 6" using f by (intro py_mod1_unit) simp_all
  have h: "(v - (v - S)) / (v - (v - S)) - (v - (v - C)) / (v - (v - S)) = A / S"
    using S assms  by (simp add: field_simps)
  have "rgb_to_hsv (v, v - C, v - S) = (py_mod1 (((v - (v - S)) / (v - (v - S)) - (v - (v - C)) / (v - (v - S))) / 6), (v - (v - S)) / v, v)"
    using raw ne assms by simp
  also have "\<dots> = (py_mod1 (A / S / 6), S / v, v)" by (simp only: h sat)
  finally show ?thesis by (simp only: m)
qed

lemma sector1:
  assumes "0 < v" "0 \<le> A" "0 < C" "A + C = S"
  shows "rgb_to_hsv (v - A, v, v - S) = ((1 + A / S) / 6, S / v, v)"
proof -
  have S: "0 < S" "A < S" using assms by linarith+
  have f: "0 \<le> A / S" "A / S < 1" using S assms by simp_all
  have ne: "v - S \<noteq> v" "v \<noteq> v - S" using S by simp_all
  have sat: "(v - (v - S)) / v = S / v" by simp
  have mx: "max (v - A) (max (v) (v - S)) = v" using assms S by (simp add: max_def)
  have mn: "min (v - A) (min (v) (v - S)) = v - S" using assms S by (simp add: min_def)
  note raw = rgb_to_hsv_known [OF mx mn ne(1)]
  have m: "py_mod1 ((1 + A / S) / 6) = (1 + A / S) / 6" using f by (intro py_mod1_unit) simp_all
  show ?thesis
  proof (cases "A = 0")
    case True
    have h: "(v - (v - S)) / (v - (v - S)) - (v - v) / (v - (v - S)) = 1 + A / S"
      using S assms True by (simp add: field_simps)
    have "rgb_to_hsv (v - A, v, v - S) = (py_mod1 (((v - (v - S)) / (v - (v - S)) - (v - v) / (v - (v - S))) / 6), (v - (v - S)) / v, v)"
      using raw True ne assms by simp
    also have "\<dots> = (py_mod1 ((1 + A / S) / 6), S / v, v)" by (simp only: h sat)
    finally show ?thesis by (simp only: m)
  next
    case False
    have h: "2 + (v - (v - A)) / (v - (v - S)) - (v - (v - S)) / (v - (v - S)) = 1 + A / S"
      using S assms False by (simp add: field_simps)
    have "rgb_to_hsv (v - A, v, v - S) = (py_mod1 ((2 + (v - (v - A)) / (v - (v - S)) - (v - (v - S)) / (v - (v - S))) / 6), (v - (v - S)) / v, v)"
      using raw False ne assms by simp
    also have "\<dots> = (py_mod1 ((1 + A / S) / 6), S / v, v)" by (simp only: h sat)
    finally show ?thesis by (simp only: m)
  qed
qed

lemma sector2:
  assumes "0 < v" "0 \<le> A" "0 < C" "A + C = S"
  shows "rgb_to_hsv (v - S, v, v - C) = ((2 + A / S) / 6, S / v, v)"
proof -
  have S: "0 < S" "A < S" using assms by linarith+
  have f: "0 \<le> A / S" "A / S < 1" using S assms by simp_all
  have ne: "v - S \<noteq> v" "v \<noteq> v - S" using S by simp_all
  have sat: "(v - (v - S)) / v = S / v" by simp
  have mx: "max (v - S) (max (v) (v - C)) = v" using assms S by (simp add: max_def)
  have mn: "min (v - S) (min (v) (v - C)) = v - S" using assms S by (simp add: min_def)
  note raw = rgb_to_hsv_known [OF mx mn ne(1)]
  have m: "py_mod1 ((2 + A / S) / 6) = (2 + A / S) / 6" using f by (intro py_mod1_unit) simp_all
  have h: "2 + (v - (v - S)) / (v - (v - S)) - (v - (v - C)) / (v - (v - S)) = 2 + A / S"
    using S assms  by (simp add: field_simps)
  have "rgb_to_hsv (v - S, v, v - C) = (py_mod1 ((2 + (v - (v - S)) / (v - (v - S)) - (v - (v - C)) / (v - (v - S))) / 6), (v - (v - S)) / v, v)"
    using raw ne assms by simp
  also have "\<dots> = (py_mod1 ((2 + A / S) / 6), S / v, v)" by (simp only: h sat)
  finally show ?thesis by (simp only: m)
qed

lemma sector3:
  assumes "0 < v" "0 \<le> A" "0 < C" "A + C = S"
  shows "rgb_to_hsv (v - S, v - A, v) = ((3 + A / S) / 6, S / v, v)"
proof -
  have S: "0 < S" "A < S" using assms by linarith+
  have f: "0 \<le> A / S" "A / S < 1" using S assms by simp_all
  have ne: "v - S \<noteq> v" "v \<noteq> v - S" using S by simp_all
  have sat: "(v - (v - S)) / v = S / v" by simp
  have mx: "max (v - S) (max (v - A) (v)) = v" using assms S by (simp add: max_def)
  have mn: "min (v - S) (min (v - A) (v)) = v - S" using assms S by (simp add: min_def)
  note raw = rgb_to_hsv_known [OF mx mn ne(1)]
  have m: "py_mod1 ((3 + A / S) / 6) = (3 + A / S) / 6" using f by (intro py_mod1_unit) simp_all
  show ?thesis
  proof (cases "A = 0")
    case True
    have h: "2 + (v - (v - S)) / (v - (v - S)) - (v - v) / (v - (v - S)) = 3 + A / S"
      using S assms True by (simp add: field_simps)
    have "rgb_to_hsv (v - S, v - A, v) = (py_mod1 ((2 + (v - (v - S)) / (v - (v - S)) - (v - v) / (v - (v - S))) / 6), (v - (v - S)) / v, v)"
      using raw True ne assms by simp
    also have "\<dots> = (py_mod1 ((3 + A / S) / 6), S / v, v)" by (simp only: h sat)
    finally show ?thesis by (simp only: m)
  next
    case False
    have h: "4 + (v - (v - A)) / (v - (v - S)) - (v - (v - S)) / (v - (v - S)) = 3 + A / S"
      using S assms False by (simp add: field_simps)
    have "rgb_to_hsv (v - S, v - A, v) = (py_mod1 ((4 + (v - (v - A)) / (v - (v - S)) - (v - (v - S)) / (v - (v - S))) / 6), (v - (v - S)) / v, v)"
      using raw False ne assms by simp
    also have "\<dots> = (py_mod1 ((3 + A / S) / 6), S / v, v)" by (simp only: h sat)
    finally show ?thesis by (simp only: m)
  qed
qed

lemma sector4:
  assumes "0 < v" "0 \<le> A" "0 < C" "A + C = S"
  shows "rgb_to_hsv (v - C, v - S, v) = ((4 + A / S) / 6, S / v, v)"
proof -
  have S: "0 < S" "A < S" using assms by linarith+
  have f: "0 \<le> A / S" "A / S < 1" using S assms by simp_all
  have ne: "v - S \<noteq> v" "v \<noteq> v - S" using S by simp_all
  have sat: "(v - (v - S)) / v = S / v" by simp
  have mx: "max (v - C) (max (v - S) (v)) = v" using assms S by (simp add: max_def)
  have mn: "min (v - C) (min (v - S) (v)) = v - S" using assms S by (simp add: min_def)
  note raw = rgb_to_hsv_known [OF mx mn ne(1)]
  have m: "py_mod1 ((4 + A / S) / 6) = (4 + A / S) / 6" using f by (intro py_mod1_unit) simp_all
  have h: "4 + (v - (v - S)) / (v - (v - S)) - (v - (v - C)) / (v - (v - S)) = 4 + A / S"
    using S assms  by (simp add: field_simps)
  have "rgb_to_hsv (v - C, v - S, v) = (py_mod1 ((4 + (v - (v - S)) / (v - (v - S)) - (v - (v - C)) / (v - (v - S))) / 6), (v - (v - S)) / v, v)"
    using raw ne assms by simp
  also have "\<dots> = (py_mod1 ((4 + A / S) / 6), S / v, v)" by (simp only: h sat)
  finally show ?thesis by (simp only: m)
qed

lemma sector5:
  assumes "0 < v" "0 \<le> A" "0 < C" "A + C = S"
  shows "rgb_to_hsv (v, v - S, v - A) = ((5 + A / S) / 6, S / v, v)"
proof -
  have S: "0 < S" "A < S" using assms by linarith+
  have f: "0 \<le> A / S" "A / S < 1" using S assms by simp_all
  have ne: "v - S \<noteq> v" "v \<noteq> v - S" using S by simp_all
  have sat: "(v - (v - S)) / v = S / v" by simp
  have mx: "max (v) (max (v - S) (v - A)) = v" using assms S by (simp add: max_def)
  have mn: "min (v) (min (v - S) (v - A)) = v - S" using assms S by (simp add: min_def)
  note raw = rgb_to_hsv_known [OF mx mn ne(1)]
  have "py_mod1 ((A / S - 1) / 6) = (A / S - 1) / 6 + 1"
    using f by (intro py_mod1_neg_unit) simp_all
  also have "\<dots> = (5 + A / S) / 6" by (rule shift5)
  finally have m: "py_mod1 ((A / S - 1) / 6) = (5 + A / S) / 6" .
  have h: "(v - (v - A)) / (v - (v - S)) - (v - (v - S)) / (v - (v - S)) = A / S - 1"
    using S assms  by (simp add: field_simps)
  have "rgb_to_hsv (v, v - S, v - A) = (py_mod1 (((v - (v - A)) / (v - (v - S)) - (v - (v - S)) / (v - (v - S))) / 6), (v - (v - S)) / v, v)"
    using raw ne assms by simp
  also have "\<dots> = (py_mod1 ((A / S - 1) / 6), S / v, v)" by (simp only: h sat)
  finally show ?thesis by (simp only: m)
qed

lemma hsv_to_rgb_sectors:
  assumes "0 \<le> h" and "s \<noteq> 0" and "i = \<lfloor>h * 6\<rfloor>" and "i mod 6 = i"
    and "f = h * 6 - of_int i" and "S = v * s" and "A = v * s * f" and "C = v * s * (1 - f)"
  shows "hsv_to_rgb (h, s, v) =
           (if i = 0 then (v, v - C, v - S)
            else if i = 1 then (v - A, v, v - S)
            else if i = 2 then (v - S, v, v - C)
            else if i = 3 then (v - S, v - A, v)
            else if i = 4 then (v - C, v - S, v)
            else (v, v - S, v - A))"
proof -
  have "py_int (h * 6) = i"
    using assms(1,3) by (simp add: py_int_def)
  then have "hsv_to_rgb (h, s, v) =
           (if i = 0 then (v, v * (1 - s * (1 - f)), v * (1 - s))
            else if i = 1 then (v * (1 - s * f), v, v * (1 - s))
            else if i = 2 then (v * (1 - s), v, v * (1 - s * (1 - f)))
            else if i = 3 then (v * (1 - s), v * (1 - s * f), v)
            else if i = 4 then (v * (1 - s * (1 - f)), v * (1 - s), v)
            else (v, v * (1 - s), v * (1 - s * f)))"
    using assms(2,4,5) by (simp add: hsv_to_rgb_def Let_def)
  moreover have "v * (1 - s) = v - S" "v * (1 - s * f) = v - A" "v * (1 - s * (1 - f)) = v - C"
    unfolding assms(6,7,8) by (simp_all add: algebra_simps)
  ultimately show ?thesis by (simp only:)
qed

text \<open>Converting to RGB and back gives the same hue, saturation and value.\<close>

lemma hsv_roundtrip:
  assumes "0 \<le> h" and "h < 1" and "0 < s" and "0 < v"
  shows "rgb_to_hsv (hsv_to_rgb (h, s, v)) = (h, s, v)"
proof -
  define i where "i = \<lfloor>h * 6\<rfloor>"
  define f where "f = h * 6 - of_int i"
  define S where "S = v * s"
  define A where "A = v * s * f"
  define C where "C = v * s * (1 - f)"
  have i: "0 \<le> i" "i \<le> 5"
    using assms(1,2) unfolding i_def by (simp_all add: floor_le_iff le_floor_iff)
  have f: "0 \<le> f" "f < 1"
    unfolding f_def i_def by linarith+
  have vs: "0 < v * s" using assms(3,4) by simp
  have k1: "0 \<le> A" unfolding A_def using assms(3,4) f(1) by (intro mult_nonneg_nonneg) simp_all
  have k2: "0 < C" unfolding C_def using assms(3,4) f(2) by (intro mult_pos_pos) simp_all
  have k3: "A + C = S" by (simp add: A_def C_def S_def algebra_simps)
  note k = assms(4) k1 k2 k3
  have sat: "S / v = s" using assms(4) by (simp add: S_def)
  have frac: "A / S = f" using assms(3,4) by (simp add: A_def S_def)
  have hue: "(of_int i + f) / 6 = h" by (simp add: f_def)
  have imod: "i mod 6 = i" using i by simp
  have s0: "s \<noteq> 0" using assms(3) by simp
  note rgb = hsv_to_rgb_sectors [OF assms(1) s0 i_def imod f_def S_def A_def C_def]
  from i consider "i = 0" | "i = 1" | "i = 2" | "i = 3" | "i = 4" | "i = 5" by linarith
  then show ?thesis
  proof cases
    case 1
    with rgb sector0 [OF k] hue sat frac show ?thesis by simp
  next
    case 2
    with rgb sector1 [OF k] hue sat frac show ?thesis by simp
  next
    case 3
    with rgb sector2 [OF k] hue sat frac show ?thesis by simp
  next
    case 4
    with rgb sector3 [OF k] hue sat frac show ?thesis by simp
  next
    case 5
    with rgb sector4 [OF k] hue sat frac show ?thesis by simp
  next
    case 6
    with rgb sector5 [OF k] hue sat frac show ?thesis by simp
  qed
qed

text \<open>
  Claim C7. For a base colour with channels in [0, 1], of hue \<open>h\<close>, saturation \<open>s\<close> and value
  \<open>v\<close>, the colour \<open>generate_contrasting_color\<close> returns for the level \<open>high\<close> has hue
  \<open>(h + 0.5) mod 1\<close>, saturation \<open>max 0.1 (s * 0.5)\<close> and value 0.95 if \<open>v < 0.5\<close>, 0.15
  otherwise, which is on the other side of 0.5 from \<open>v\<close>. (In exact arithmetic; the hue,
  saturation and value of the result are those \<open>rgb_to_hsv\<close> reads back from it.)
\<close>

theorem contrasting_color_high:
  assumes "0 \<le> r" and "r \<le> 1" and "0 \<le> g" and "g \<le> 1" and "0 \<le> b" and "b \<le> 1"
    and "rgb_to_hsv (r, g, b) = (h, s, v)"
  shows "rgb_to_hsv (generate_contrasting_color rn (r, g, b) ''high'')
           = (py_mod1 (h + 0.5), max 0.1 (s * 0.5), if v < 0.5 then 0.95 else 0.15)
         \<and> (v < 0.5 \<and> 0.5 < snd (snd (rgb_to_hsv (generate_contrasting_color rn (r, g, b) ''high'')))
            \<or> 0.5 \<le> v \<and> snd (snd (rgb_to_hsv (generate_contrasting_color rn (r, g, b) ''high''))) < 0.5)"
proof -
  let ?h = "py_mod1 (h + 0.5)"
  let ?s = "max 0.1 (s * 0.5)"
  let ?v = "if v < 0.5 then 0.95 else 0.15 :: real"
  have g: "generate_contrasting_color rn (r, g, b) ''high'' = hsv_to_rgb (?h, ?s, ?v)"
    using assms(7) by (simp add: generate_contrasting_color_def Let_def)
  have "0 \<le> ?h" "?h < 1" using py_mod1_range [of "h + 0.5"] by simp_all
  moreover have "0 < ?s" by simp
  moreover have "0 < ?v" by simp
  ultimately have rt: "rgb_to_hsv (hsv_to_rgb (?h, ?s, ?v)) = (?h, ?s, ?v)"
    by (rule hsv_roundtrip)
  show ?thesis unfolding g rt by simp
qed

theorem contrasting_color_high_witness:
  "(0::real) \<le> 0.2 \<and> (0.2::real) \<le> 1 \<and> (0::real) \<le> 0.4 \<and> (0.4::real) \<le> 1
   \<and> (0::real) \<le> 0.6 \<and> (0.6::real) \<le> 1
   \<and> rgb_to_hsv (0.2, 0.4, 0.6) = (7 / 12, 2 / 3, 0.6)
   \<and> rgb_to_hsv (generate_contrasting_color rnd0 (0.2, 0.4, 0.6) ''high'') = (1 / 12, 1 / 3, 0.15)"
proof -
  have "\<lfloor>7 / 12 :: real\<rfloor> = 0" by simp
  then have hsv: "rgb_to_hsv (0.2, 0.4, 0.6) = (7 / 12, 2 / 3, 0.6)"
    by (simp add: rgb_to_hsv_def Let_def py_mod1_def)
  have "\<lfloor>13 / 12 :: real\<rfloor> = 1" by simp
  then have m: "py_mod1 (13 / 12) = 1 / 12" by (simp add: py_mod1_def)
  from contrasting_color_high [of "0.2" "0.4" "0.6" "7 / 12" "2 / 3" "0.6" rnd0] hsv
  have "rgb_to_hsv (generate_contrasting_color rnd0 (0.2, 0.4, 0.6) ''high'')
          = (py_mod1 (7 / 12 + 0.5), max 0.1 (2 / 3 * 0.5), if (0.6::real) < 0.5 then 0.95 else 0.15)"
    by simp
  then have "rgb_to_hsv (generate_contrasting_color rnd0 (0.2, 0.4, 0.6) ''high'')
          = (1 / 12, 1 / 3, 0.15)"
    by (simp add: m)
  with hsv show ?thesis by simp
qed

end
